theory Spec2Isabelle
  imports
    Complex_Main
    "HOL-Library.Char_ord"
    "HOL-Library.List_Lexorder"
    "HOL-Library.Multiset"
    "HOL-Library.Sublist"
begin

section \<open>The review table\<close>

text \<open>
  One row of the DataFrame that \<^verbatim>\<open>pd.read_csv\<close> builds from the input file, read
  through the five columns the report uses. A cell that is empty in the file is a missing
  value (NaN), \<open>None\<close> here; any of the five cells of a row may be missing. Text cells
  are strings, compared by code point as Python compares them. A rating is a 64-bit
  float, which is a rational number.
\<close>

record review =
  name :: "string option"
  product_category :: "string option"
  reviews_rating :: "rat option"
  rating_sentiment :: "string option"
  chatgpt_summary :: "string option"

type_synonym dataframe = "review list"

section \<open>What the numeric library computes\<close>

text \<open>
  Two computations of the analysis are done by numpy, whose code is not part of the
  program: the mean of an array of floats, and the sort that pandas requests with its
  default \<^verbatim>\<open>kind='quicksort'\<close>. Both are parameters of the model. \<open>float_mean\<close> is
  the mean of a non-empty array as float arithmetic yields it; nothing is assumed of it.
  \<open>argsort\<close> returns the positions of an array of keys in ascending order of the
  keys; which of two equal keys comes first is up to the library.
\<close>

record numpy =
  float_mean :: "rat list \<Rightarrow> rat"
  argsort :: "rat list \<Rightarrow> nat list"

section \<open>The pandas operations the analysis calls\<close>

text \<open>\<^verbatim>\<open>Series.dropna()\<close>: the values that are present, in row order.\<close>

fun dropna :: "'a option list \<Rightarrow> 'a list" where
  "dropna [] = []"
| "dropna (None # xs) = dropna xs"
| "dropna (Some x # xs) = x # dropna xs"

text \<open>
  \<^verbatim>\<open>Series.unique()\<close>: every value once, in order of first appearance; a missing
  value is a value of the column like any other.
\<close>

definition unique :: "'a list \<Rightarrow> 'a list" where
  "unique xs = rev (remdups (rev xs))"

text \<open>
  \<^verbatim>\<open>Series.mean()\<close> skips missing values (\<^verbatim>\<open>skipna=True\<close> is the default); the
  mean of no value at all is missing.
\<close>

definition mean :: "numpy \<Rightarrow> rat option list \<Rightarrow> rat option" where
  "mean lib xs =
     (case dropna xs of
        [] \<Rightarrow> None
      | y # ys \<Rightarrow> Some (float_mean lib (y # ys)))"

text \<open>
  \<^verbatim>\<open>df.groupby('name')['reviews.rating'].mean().reset_index()\<close>: one row per product
  name, the names in ascending order (\<^verbatim>\<open>sort=True\<close> is the default; the names of the
  groups are distinct, so their order is the same under any sort), each with the mean of
  the ratings of its rows. Rows whose name is missing belong to no group
  (\<^verbatim>\<open>dropna=True\<close> is the default).
\<close>

definition groupby_mean :: "numpy \<Rightarrow> dataframe \<Rightarrow> (string \<times> rat option) list" where
  "groupby_mean lib df =
     map (\<lambda>n. (n, mean lib (map reviews_rating (filter (\<lambda>r. name r = Some n) df))))
       (sort (remdups (dropna (map name df))))"

text \<open>Selecting rows by position, as \<^verbatim>\<open>take\<close> and \<^verbatim>\<open>items[idx]\<close> do.\<close>

definition take_at :: "'a list \<Rightarrow> nat list \<Rightarrow> 'a list" where
  "take_at xs idx = map (\<lambda>i. xs ! i) idx"

text \<open>
  pandas' \<^verbatim>\<open>nargsort(items, kind, ascending, na_position='last')\<close>, which
  \<^verbatim>\<open>sort_values\<close> calls on the key column: the positions of the missing keys are set
  aside and appended at the end; the other keys are sorted by \<open>kind\<close>, and for a
  descending sort keys and positions are reversed before that sort and the result is
  reversed after it.
\<close>

definition nargsort :: "(rat list \<Rightarrow> nat list) \<Rightarrow> bool \<Rightarrow> rat option list \<Rightarrow> nat list" where
  "nargsort kind ascending items =
     (let idx = [0..<length items];
          non_nans = dropna items;
          non_nan_idx = filter (\<lambda>i. items ! i \<noteq> None) idx;
          nan_idx = filter (\<lambda>i. items ! i = None) idx
      in (if ascending then take_at non_nan_idx (kind non_nans)
          else rev (take_at (rev non_nan_idx) (kind (rev non_nans))))
         @ nan_idx)"

text \<open>
  \<^verbatim>\<open>sort_values(column, ascending=...)\<close> of a table by its second column, with the
  default \<^verbatim>\<open>kind\<close>.
\<close>

definition sort_values :: "numpy \<Rightarrow> bool \<Rightarrow> ('a \<times> rat option) list \<Rightarrow> ('a \<times> rat option) list" where
  "sort_values lib ascending ps = take_at ps (nargsort (argsort lib) ascending (map snd ps))"

text \<open>
  \<^verbatim>\<open>Series.value_counts()\<close>: the number of rows per value that occurs, missing values
  left out (\<^verbatim>\<open>dropna=True\<close> is the default); the values are met in order of first
  appearance and the series is then sorted by descending count, with the default
  \<^verbatim>\<open>kind\<close>.
\<close>

definition value_counts :: "numpy \<Rightarrow> 'a option list \<Rightarrow> ('a \<times> nat) list" where
  "value_counts lib col =
     (let vs = dropna col;
          counted = map (\<lambda>v. (v, count_list vs v)) (unique vs)
      in take_at counted
           (nargsort (argsort lib) False (map (\<lambda>p. Some (of_nat (snd p))) counted)))"

text \<open>
  \<^verbatim>\<open>Series.sort_index()\<close> on the counts of the ratings: the same pairs, sorted by
  the rating, with the default \<^verbatim>\<open>kind\<close>.
\<close>

definition sort_index :: "numpy \<Rightarrow> (rat \<times> nat) list \<Rightarrow> (rat \<times> nat) list" where
  "sort_index lib s = take_at s (nargsort (argsort lib) True (map (\<lambda>p. Some (fst p)) s))"

section \<open>Figures and the pyplot registry\<close>

text \<open>
  What a bar chart of the report shows: its bars (a tick label and a height each), its
  title and its axis labels. The PNG encoding of a figure is not modelled: a chart of the
  report is the figure it was rendered from.
\<close>

datatype label = Text string | Number rat

record figure =
  bars :: "(label \<times> nat) list"
  fig_title :: string
  xlabel :: string
  ylabel :: string

definition blank :: figure where
  "blank = \<lparr>bars = [], fig_title = [], xlabel = [], ylabel = []\<rparr>"

text \<open>
  pyplot keeps the open figures in a process-wide registry, by figure number, in order of
  activation: the last one is the current figure, on which \<^verbatim>\<open>plt.title\<close>,
  \<^verbatim>\<open>plt.xlabel\<close> and \<^verbatim>\<open>plt.ylabel\<close> act. This is the only state outside its
  arguments that the analysis touches.
\<close>

type_synonym pyplot = "(nat \<times> figure) list"

definition subplots :: "pyplot \<Rightarrow> nat \<times> pyplot" where
  "subplots figs = (let num = Suc (fold max (map fst figs) 0) in (num, figs @ [(num, blank)]))"

definition update_fig :: "nat \<Rightarrow> (figure \<Rightarrow> figure) \<Rightarrow> pyplot \<Rightarrow> pyplot" where
  "update_fig num f figs = map (\<lambda>(k, g). if k = num then (k, f g) else (k, g)) figs"

definition on_current :: "(figure \<Rightarrow> figure) \<Rightarrow> pyplot \<Rightarrow> pyplot" where
  "on_current f figs =
     (let (num, figs') = (if figs = [] then subplots figs else (fst (last figs), figs))
      in update_fig num f figs')"

text \<open>
  \<^verbatim>\<open>Series.plot(kind='bar', ax=ax)\<close> draws one bar per entry of the series on the
  axes of a figure. Asked to draw a series that has no entry, pandas raises (an
  \<^verbatim>\<open>IndexError\<close>, or a \<^verbatim>\<open>TypeError\<close> in older versions), and the program catches
  nothing: this is the one exception of the analysis.
\<close>

datatype error = PlotError

definition plot_bar :: "nat \<Rightarrow> (label \<times> nat) list \<Rightarrow> pyplot \<Rightarrow> error + pyplot" where
  "plot_bar ax bs figs =
     (if bs = [] then Inl PlotError else Inr (update_fig ax (\<lambda>g. g\<lparr>bars := bs\<rparr>) figs))"

definition plt_title :: "string \<Rightarrow> pyplot \<Rightarrow> pyplot" where
  "plt_title s figs = on_current (\<lambda>g. g\<lparr>fig_title := s\<rparr>) figs"

definition plt_xlabel :: "string \<Rightarrow> pyplot \<Rightarrow> pyplot" where
  "plt_xlabel s figs = on_current (\<lambda>g. g\<lparr>xlabel := s\<rparr>) figs"

definition plt_ylabel :: "string \<Rightarrow> pyplot \<Rightarrow> pyplot" where
  "plt_ylabel s figs = on_current (\<lambda>g. g\<lparr>ylabel := s\<rparr>) figs"

definition fig_to_base64 :: "nat \<Rightarrow> pyplot \<Rightarrow> figure" where
  "fig_to_base64 fig figs = (case map_of figs fig of Some g \<Rightarrow> g | None \<Rightarrow> blank)"

definition plt_close :: "nat \<Rightarrow> pyplot \<Rightarrow> pyplot" where
  "plt_close fig figs = filter (\<lambda>(k, g). k \<noteq> fig) figs"

section \<open>The category analysis\<close>

definition DEFAULT_CATEGORY_IMAGES :: "(string \<times> string) list" where
  "DEFAULT_CATEGORY_IMAGES =
     [(''Accessories'',
       ''https://images-na.ssl-images-amazon.com/images/G/01/AmazonBasics/landing/electronics._CB485921693_.jpg''),
      (''Tablets & Entertainment'',
       ''https://images-na.ssl-images-amazon.com/images/G/01/kindle/journeys/YTNiNWIyZTgt/YTNiNWIyZTgt-ZjZmMzY2Yjct-w1500._CB417267304_.jpg''),
      (''Smart Home & Speakers'',
       ''https://images-na.ssl-images-amazon.com/images/G/01/kindle/journeys/Nzg3NzIxZDct/Nzg3NzIxZDct-YzA3MzI3Yjgt-w1500._CB418667506_.jpg''),
      (''E-readers'',
       ''https://images-na.ssl-images-amazon.com/images/G/01/kindle/journeys/Yzg5NWM0MDQt/Yzg5NWM0MDQt-YTJmMDQzMWIt-w1500._CB418667506_.jpg'')]"

record top_entry =
  tp_name :: string
  tp_rating :: "rat option"
  positive_summaries :: "string list"

record worst_entry =
  wp_name :: string
  wp_rating :: "rat option"
  improvement_summaries :: "string list"

record report =
  category :: string
  product_count :: nat
  review_count :: nat
  avg_rating :: "rat option"
  top_products :: "top_entry list"
  worst_product :: "worst_entry option"
  sentiment_chart :: figure
  rating_chart :: figure
  image_url :: string

text \<open>
  The loop over the top products (source lines 90 to 106): for each ranked product, its
  rows of the category, among them those labelled Positive, and the first five summaries
  that are present.
\<close>

definition top_products_data :: "dataframe \<Rightarrow> (string \<times> rat option) list \<Rightarrow> top_entry list" where
  "top_products_data category_df top_rows =
     map (\<lambda>(product_name, rating).
           let product_reviews = filter (\<lambda>r. name r = Some product_name) category_df;
               positive_reviews =
                 filter (\<lambda>r. rating_sentiment r = Some ''Positive'') product_reviews;
               positive_summaries =
                 (if length positive_reviews > 0
                  then take 5 (dropna (map chatgpt_summary positive_reviews))
                  else [])
           in \<lparr>tp_name = product_name, tp_rating = rating,
               positive_summaries = positive_summaries\<rparr>)
       top_rows"

text \<open>
  The worst product (source lines 109 to 125): \<open>None\<close> when the one-row table is
  empty, else the entry of its first row with the summaries of the rows labelled Negative.
\<close>

definition worst_product_data :: "dataframe \<Rightarrow> (string \<times> rat option) list \<Rightarrow> worst_entry option" where
  "worst_product_data category_df worst_rows =
     (case worst_rows of
        [] \<Rightarrow> None
      | (product_name, rating) # _ \<Rightarrow>
          let product_reviews = filter (\<lambda>r. name r = Some product_name) category_df;
              negative_reviews =
                filter (\<lambda>r. rating_sentiment r = Some ''Negative'') product_reviews;
              improvement_summaries =
                (if length negative_reviews > 0
                 then take 5 (dropna (map chatgpt_summary negative_reviews))
                 else [])
          in Some \<lparr>wp_name = product_name, wp_rating = rating,
                   improvement_summaries = improvement_summaries\<rparr>)"

text \<open>
  Drawing one chart (source lines 130 to 138 and 141 to 149): a new figure, the bars on
  its axes, title and labels on the current figure, the rendering, and the figure closed.
  When the plot call raises, the figure that was just opened stays open.
\<close>

definition bar_chart ::
  "(label \<times> nat) list \<Rightarrow> string \<Rightarrow> string \<Rightarrow> string \<Rightarrow> pyplot \<Rightarrow>
     (error + figure) \<times> pyplot" where
  "bar_chart series t xl yl plt0 =
     (let (fig, plt1) = subplots plt0 in
      case plot_bar fig series plt1 of
        Inl e \<Rightarrow> (Inl e, plt1)
      | Inr plt2 \<Rightarrow>
          let plt3 = plt_title t plt2;
              plt4 = plt_xlabel xl plt3;
              plt5 = plt_ylabel yl plt4;
              chart = fig_to_base64 fig plt5;
              plt6 = plt_close fig plt5
          in (Inr chart, plt6))"

text \<open>
  \<^verbatim>\<open>analyze_category_data(df, category)\<close>, with the numeric library as a parameter
  and the pyplot registry passed in and returned. The result is \<open>Inr None\<close> where the
  program returns \<^verbatim>\<open>None\<close>, \<open>Inr (Some report)\<close> where it returns the dictionary,
  and \<open>Inl\<close> of the exception where one of the two plot calls raises.
\<close>

definition analyze_category_data ::
  "numpy \<Rightarrow> pyplot \<Rightarrow> dataframe \<Rightarrow> string \<Rightarrow> (error + report option) \<times> pyplot" where
  "analyze_category_data lib plt0 df cat =
     (let category_df = filter (\<lambda>r. product_category r = Some cat) df in
      if length category_df = 0 then (Inr None, plt0)
      else
        let product_ratings = groupby_mean lib category_df;
            top_products = take 3 (sort_values lib False product_ratings);
            worst_product = take 1 (sort_values lib True product_ratings);
            top_data = top_products_data category_df top_products;
            worst_data = worst_product_data category_df worst_product;
            sentiment_counts = value_counts lib (map rating_sentiment category_df)
        in
          case bar_chart (map (\<lambda>(k, c). (Text k, c)) sentiment_counts)
                 (''Sentiment Distribution - '' @ cat) ''Sentiment'' ''Count'' plt0 of
            (Inl e, plt1) \<Rightarrow> (Inl e, plt1)
          | (Inr sentiment_chart', plt1) \<Rightarrow>
              (case bar_chart
                      (map (\<lambda>(k, c). (Number k, c))
                         (sort_index lib (value_counts lib (map reviews_rating category_df))))
                      (''Rating Distribution - '' @ cat) ''Rating'' ''Count'' plt1 of
                 (Inl e, plt2) \<Rightarrow> (Inl e, plt2)
               | (Inr rating_chart', plt2) \<Rightarrow>
                   (Inr (Some \<lparr>category = cat,
                       product_count = length (unique (map name category_df)),
                       review_count = length category_df,
                       avg_rating = mean lib (map reviews_rating category_df),
                       top_products = top_data,
                       worst_product = worst_data,
                       sentiment_chart = sentiment_chart',
                       rating_chart = rating_chart',
                       image_url = (case map_of DEFAULT_CATEGORY_IMAGES cat of
                                      Some url \<Rightarrow> url | None \<Rightarrow> [])\<rparr>),
                    plt2)))"

section \<open>The driver\<close>

text \<open>
  What a run does, in order: lines printed, the input file read, and the report
  generated. \<open>GenerateHtmlReport\<close> stands for the whole call of
  \<^verbatim>\<open>generate_html_report\<close>, which creates the output directories, writes the
  stylesheet and the script, analyses the categories and then writes
  \<^verbatim>\<open>index.html\<close>; it carries the output directory, the title and the category
  data that the page is rendered from, or else the exception that ended the call before
  the page was written.
\<close>

datatype event =
  Print string
| ReadCsv string
| GenerateHtmlReport string string "error + report list"

fun is_GenerateHtmlReport :: "event \<Rightarrow> bool" where
  "is_GenerateHtmlReport (GenerateHtmlReport d t cs) = True"
| "is_GenerateHtmlReport (Print s) = False"
| "is_GenerateHtmlReport (ReadCsv p) = False"

text \<open>Whether the call of \<^verbatim>\<open>generate_html_report\<close> ended with an exception.\<close>

fun raised :: "event \<Rightarrow> bool" where
  "raised (GenerateHtmlReport d t (Inl e)) = True"
| "raised (GenerateHtmlReport d t (Inr cs)) = False"
| "raised (Print s) = False"
| "raised (ReadCsv p) = False"

text \<open>
  The loop of \<^verbatim>\<open>generate_html_report\<close> over
  \<^verbatim>\<open>df['product_category'].unique()\<close> (source lines 414 to 421). A missing
  category in that list equals no cell, so its analysis has no rows and yields
  \<^verbatim>\<open>None\<close>; a \<^verbatim>\<open>None\<close> result is not appended. An exception of an analysis
  ends the loop.
\<close>

fun category_data ::
  "numpy \<Rightarrow> pyplot \<Rightarrow> dataframe \<Rightarrow> string option list \<Rightarrow> (error + report list) \<times> pyplot" where
  "category_data lib plt df [] = (Inr [], plt)"
| "category_data lib plt df (None # cs) = category_data lib plt df cs"
| "category_data lib plt df (Some c # cs) =
     (case analyze_category_data lib plt df c of
        (Inl e, plt1) \<Rightarrow> (Inl e, plt1)
      | (Inr data, plt1) \<Rightarrow>
          (case category_data lib plt1 df cs of
             (Inl e, plt2) \<Rightarrow> (Inl e, plt2)
           | (Inr rest, plt2) \<Rightarrow>
               (Inr (case data of None \<Rightarrow> rest | Some d \<Rightarrow> d # rest), plt2)))"

definition generate_html_report :: "numpy \<Rightarrow> dataframe \<Rightarrow> string \<Rightarrow> string \<Rightarrow> event" where
  "generate_html_report lib df out_dir t =
     GenerateHtmlReport out_dir t
       (fst (category_data lib [] df (unique (map product_category df))))"

text \<open>\<^verbatim>\<open>sep.join(xs)\<close>.\<close>

fun join :: "string \<Rightarrow> string list \<Rightarrow> string" where
  "join sep [] = []"
| "join sep [x] = x"
| "join sep (x # y # ys) = x @ sep @ join sep (y # ys)"

record args =
  input :: string
  output_dir :: string
  title :: string

definition required_columns :: "string list" where
  "required_columns =
     [''name'', ''product_category'', ''reviews.rating'', ''rating_sentiment'', ''chatgpt_summary'']"

definition missing_columns :: "string list \<Rightarrow> string list" where
  "missing_columns columns = filter (\<lambda>col. col \<notin> set columns) required_columns"

text \<open>
  \<^verbatim>\<open>main()\<close> (source lines 548 to 569). The parsed command line is \<open>a\<close>; what
  \<^verbatim>\<open>pd.read_csv\<close> returns is given by the column names of the file and by its rows,
  which are consulted only once the five required columns are known to exist. An
  exception of the report generation ends the run.
\<close>

definition main :: "numpy \<Rightarrow> args \<Rightarrow> string list \<Rightarrow> dataframe \<Rightarrow> event list" where
  "main lib a columns df =
     [Print (''Loading data from '' @ input a @ ''...''), ReadCsv (input a)] @
     (if missing_columns columns \<noteq> []
      then [Print (''Error: Missing required columns: '' @ join '', '' (missing_columns columns)),
            Print ''Please make sure your input CSV contains these columns.'']
      else [Print (''Generating HTML report with title: '' @ title a),
            generate_html_report lib df (output_dir a) (title a)] @
           (if raised (generate_html_report lib df (output_dir a) (title a)) then []
            else [Print ''Done!'']))"

section \<open>Notions used to state the properties\<close>

text \<open>A figure number that no open figure of the registry has.\<close>

definition fresh :: "nat \<Rightarrow> pyplot \<Rightarrow> bool" where
  "fresh num figs = (num \<notin> fst ` set figs)"

text \<open>
  A category whose two charts have something to draw: some review of the category has a
  sentiment label, and some review of the category has a rating. The data model of the
  specification, where every review has both, makes every category that occurs such a
  category.
\<close>

definition drawable :: "dataframe \<Rightarrow> string \<Rightarrow> bool" where
  "drawable df c =
     (filter (\<lambda>r. product_category r = Some c \<and> rating_sentiment r \<noteq> None) df \<noteq> [] \<and>
      filter (\<lambda>r. product_category r = Some c \<and> reviews_rating r \<noteq> None) df \<noteq> [])"

text \<open>
  What is asked of the library's sort: the result lists every position of the array
  once, and the keys read in that order ascend. It is the contract of any sort; it does
  not say which of two equal keys comes first.
\<close>

definition argsorts :: "(rat list \<Rightarrow> nat list) \<Rightarrow> bool" where
  "argsorts kind =
     (\<forall>keys. mset (kind keys) = mset [0..<length keys] \<and>
             sorted (map (\<lambda>i. keys ! i) (kind keys)))"

text \<open>The part of \<open>nargsort\<close> that holds the positions of the keys that are present.\<close>

definition sorted_part :: "(rat list \<Rightarrow> nat list) \<Rightarrow> bool \<Rightarrow> rat option list \<Rightarrow> nat list" where
  "sorted_part kind asc items =
     (if asc then take_at (filter (\<lambda>i. items ! i \<noteq> None) [0..<length items]) (kind (dropna items))
      else rev (take_at (rev (filter (\<lambda>i. items ! i \<noteq> None) [0..<length items]))
                 (kind (rev (dropna items)))))"

text \<open>
  Two sorts that meet the contract. The first keeps equal keys in their order in the
  array, the second returns equal keys in the reverse of that order.
\<close>

definition stable_argsort :: "rat list \<Rightarrow> nat list" where
  "stable_argsort keys = map snd (sort_key fst (zip keys [0..<length keys]))"

definition reversing_argsort :: "rat list \<Rightarrow> nat list" where
  "reversing_argsort keys = map snd (sort_key fst (rev (zip keys [0..<length keys])))"

text \<open>The mean in exact arithmetic.\<close>

definition exact_mean :: "rat list \<Rightarrow> rat" where
  "exact_mean xs = sum_list xs / of_nat (length xs)"

text \<open>
  Two instances of the library, both with the exact mean: one whose sort keeps equal
  keys in order, one whose sort reverses them.
\<close>

definition lib_stable :: numpy where
  "lib_stable = \<lparr>float_mean = exact_mean, argsort = stable_argsort\<rparr>"

definition lib_reversing :: numpy where
  "lib_reversing = \<lparr>float_mean = exact_mean, argsort = reversing_argsort\<rparr>"

text \<open>
  The two orders of a ranking by mean rating. A product none of whose reviews has a
  rating has no mean; it ranks last in either direction, as \<^verbatim>\<open>na_position='last'\<close>
  places it.
\<close>

fun descending :: "rat option \<Rightarrow> rat option \<Rightarrow> bool" where
  "descending (Some a) (Some b) = (b \<le> a)"
| "descending a None = True"
| "descending None (Some b) = False"

fun ascending :: "rat option \<Rightarrow> rat option \<Rightarrow> bool" where
  "ascending (Some a) (Some b) = (a \<le> b)"
| "ascending a None = True"
| "ascending None (Some b) = False"


text \<open>
  Five small tables. The first is the scenario of the specification, product A rated
  5, 5 and 4 with Positive reviews and product B rated 2 and 1 with Negative ones, where
  one review of A has no summary. The second has four products with one review each,
  P00 and P01 rated 4 and P02 and P03 rated 5. The third has one review, whose product
  name is missing. The fourth has two reviews of one product, the second without rating
  and without sentiment label. The fifth has one review, which has no rating.
\<close>

definition accessories :: dataframe where
  "accessories =
     [\<lparr>name = Some ''A'', product_category = Some ''Accessories'', reviews_rating = Some 5,
       rating_sentiment = Some ''Positive'', chatgpt_summary = Some ''sturdy''\<rparr>,
      \<lparr>name = Some ''B'', product_category = Some ''Accessories'', reviews_rating = Some 2,
       rating_sentiment = Some ''Negative'', chatgpt_summary = Some ''frayed''\<rparr>,
      \<lparr>name = Some ''A'', product_category = Some ''Accessories'', reviews_rating = Some 5,
       rating_sentiment = Some ''Positive'', chatgpt_summary = None\<rparr>,
      \<lparr>name = Some ''B'', product_category = Some ''Accessories'', reviews_rating = Some 1,
       rating_sentiment = Some ''Negative'', chatgpt_summary = Some ''broke''\<rparr>,
      \<lparr>name = Some ''A'', product_category = Some ''Accessories'', reviews_rating = Some 4,
       rating_sentiment = Some ''Positive'', chatgpt_summary = Some ''works''\<rparr>]"

definition tied :: dataframe where
  "tied =
     [\<lparr>name = Some ''P00'', product_category = Some ''Accessories'', reviews_rating = Some 4,
       rating_sentiment = Some ''Positive'', chatgpt_summary = Some ''neat''\<rparr>,
      \<lparr>name = Some ''P01'', product_category = Some ''Accessories'', reviews_rating = Some 4,
       rating_sentiment = Some ''Positive'', chatgpt_summary = Some ''good''\<rparr>,
      \<lparr>name = Some ''P02'', product_category = Some ''Accessories'', reviews_rating = Some 5,
       rating_sentiment = Some ''Positive'', chatgpt_summary = Some ''great''\<rparr>,
      \<lparr>name = Some ''P03'', product_category = Some ''Accessories'', reviews_rating = Some 5,
       rating_sentiment = Some ''Positive'', chatgpt_summary = Some ''superb''\<rparr>]"

definition unnamed :: dataframe where
  "unnamed =
     [\<lparr>name = None, product_category = Some ''Accessories'', reviews_rating = Some 4,
       rating_sentiment = Some ''Positive'', chatgpt_summary = Some ''fine''\<rparr>]"

definition unlabelled :: dataframe where
  "unlabelled =
     [\<lparr>name = Some ''A'', product_category = Some ''Accessories'', reviews_rating = Some 5,
       rating_sentiment = Some ''Positive'', chatgpt_summary = Some ''fine''\<rparr>,
      \<lparr>name = Some ''A'', product_category = Some ''Accessories'', reviews_rating = None,
       rating_sentiment = None, chatgpt_summary = Some ''arrived''\<rparr>]"


section \<open>What a call leaves in the registry\<close>

lemma fold_max_ge: "a \<le> fold max ks (a::nat)"
  by (induction ks arbitrary: a) (auto intro: order_trans [OF max.cobounded2])

lemma fold_max_bound: "k \<in> set ks \<Longrightarrow> k \<le> fold max ks (a::nat)"
proof (induction ks arbitrary: a)
  case Nil
  then show ?case by simp
next
  case (Cons x ks)
  show ?case
  proof (cases "k = x")
    case True
    have "x \<le> max x a" by simp
    also have "\<dots> \<le> fold max ks (max x a)" by (rule fold_max_ge)
    finally show ?thesis using True by simp
  next
    case False
    with Cons show ?thesis by simp
  qed
qed

lemma subplots_fresh: "fresh (Suc (fold max (map fst figs) 0)) figs"
proof -
  have "Suc (fold max (map fst figs) 0) \<notin> set (map fst figs)"
    using fold_max_bound [of "Suc (fold max (map fst figs) 0)" "map fst figs" 0] by auto
  then show ?thesis by (simp add: fresh_def)
qed

lemma update_fig_fresh: "fresh num figs \<Longrightarrow> update_fig num f (figs @ [(num, g)]) = figs @ [(num, f g)]"
  by (induction figs) (auto simp: update_fig_def fresh_def)

lemma on_current_snoc: "fresh num figs \<Longrightarrow> on_current f (figs @ [(num, g)]) = figs @ [(num, f g)]"
  by (simp add: on_current_def update_fig_fresh)

lemma fig_to_base64_fresh: "fresh num figs \<Longrightarrow> fig_to_base64 num (figs @ [(num, g)]) = g"
  unfolding fig_to_base64_def by (induction figs) (auto simp: fresh_def)

lemma plt_close_fresh: "fresh num figs \<Longrightarrow> plt_close num (figs @ [(num, g)]) = figs"
  by (induction figs) (auto simp: plt_close_def fresh_def)

lemma bar_chart_eq:
  "bar_chart series t xl yl plt0 =
     (if series = [] then (Inl PlotError, plt0 @ [(Suc (fold max (map fst plt0) 0), blank)])
      else (Inr \<lparr>bars = series, fig_title = t, xlabel = xl, ylabel = yl\<rparr>, plt0))"
  using subplots_fresh [of plt0]
  by (simp add: bar_chart_def subplots_def plot_bar_def plt_title_def plt_xlabel_def plt_ylabel_def
      update_fig_fresh on_current_snoc fig_to_base64_fresh plt_close_fresh blank_def Let_def)

lemma analyze_category_data_eq:
  "analyze_category_data lib plt0 df cat =
     (if filter (\<lambda>r. product_category r = Some cat) df = [] then (Inr None, plt0)
      else if value_counts lib (map rating_sentiment (filter (\<lambda>r. product_category r = Some cat) df)) = [] \<or>
              sort_index lib (value_counts lib (map reviews_rating (filter (\<lambda>r. product_category r = Some cat) df))) = []
      then (Inl PlotError, plt0 @ [(Suc (fold max (map fst plt0) 0), blank)])
      else (Inr (Some \<lparr>category = cat,
                  product_count = length (unique (map name (filter (\<lambda>r. product_category r = Some cat) df))),
                  review_count = length (filter (\<lambda>r. product_category r = Some cat) df),
                  avg_rating = mean lib (map reviews_rating (filter (\<lambda>r. product_category r = Some cat) df)),
                  top_products = top_products_data (filter (\<lambda>r. product_category r = Some cat) df)
                     (take 3 (sort_values lib False (groupby_mean lib (filter (\<lambda>r. product_category r = Some cat) df)))),
                  worst_product = worst_product_data (filter (\<lambda>r. product_category r = Some cat) df)
                     (take 1 (sort_values lib True (groupby_mean lib (filter (\<lambda>r. product_category r = Some cat) df)))),
                  sentiment_chart = \<lparr>bars = map (\<lambda>(k, c). (Text k, c))
                        (value_counts lib (map rating_sentiment (filter (\<lambda>r. product_category r = Some cat) df))),
                     fig_title = ''Sentiment Distribution - '' @ cat, xlabel = ''Sentiment'', ylabel = ''Count''\<rparr>,
                  rating_chart = \<lparr>bars = map (\<lambda>(k, c). (Number k, c))
                        (sort_index lib (value_counts lib (map reviews_rating (filter (\<lambda>r. product_category r = Some cat) df)))),
                     fig_title = ''Rating Distribution - '' @ cat, xlabel = ''Rating'', ylabel = ''Count''\<rparr>,
                  image_url = (case map_of DEFAULT_CATEGORY_IMAGES cat of Some url \<Rightarrow> url | None \<Rightarrow> [])\<rparr>),
            plt0))"
  by (simp add: analyze_category_data_def bar_chart_eq Let_def)

section \<open>Sorting by a column\<close>

lemma take_at_filter: "take_at xs (filter (\<lambda>i. P (xs ! i)) [0..<length xs]) = filter P xs"
proof -
  have "map (\<lambda>i. xs ! i) (filter (P \<circ> (\<lambda>i. xs ! i)) [0..<length xs]) =
        filter P (map (\<lambda>i. xs ! i) [0..<length xs])"
    by (simp only: filter_map)
  then show ?thesis by (simp add: take_at_def comp_def map_nth)
qed

lemma filter_present: "filter (\<lambda>x. x \<noteq> None) items = map Some (dropna items)"
  by (induction items rule: dropna.induct) auto

lemma filter_missing: "filter (\<lambda>x. x = None) items = replicate (length (filter (\<lambda>x. x = None) items)) None"
  by (induction items rule: dropna.induct) auto

lemma take_at_present:
  "take_at items (filter (\<lambda>i. items ! i \<noteq> None) [0..<length items]) = map Some (dropna items)"
  using take_at_filter [of items "\<lambda>x. x \<noteq> None"] unfolding filter_present .

lemma take_at_missing:
  "take_at items (filter (\<lambda>i. items ! i = None) [0..<length items]) =
   replicate (length (filter (\<lambda>x. x = None) items)) None"
  using take_at_filter [of items "\<lambda>x. x = None"] filter_missing [of items] by metis

lemma argsorts_mset: "argsorts kind \<Longrightarrow> mset (kind keys) = mset [0..<length keys]"
  by (simp add: argsorts_def)

lemma argsorts_sorted: "argsorts kind \<Longrightarrow> sorted (map (\<lambda>i. keys ! i) (kind keys))"
  by (simp add: argsorts_def)

lemma argsorts_set: "argsorts kind \<Longrightarrow> set (kind keys) = {0..<length keys}"
  using argsorts_mset [of kind keys] by (metis set_mset_mset set_upt)

lemma mset_take_at:
  assumes "mset idx = mset [0..<length xs]"
  shows "mset (take_at xs idx) = mset xs"
proof -
  have "mset (take_at xs idx) = image_mset (\<lambda>i. xs ! i) (mset idx)"
    by (simp add: take_at_def)
  also have "\<dots> = image_mset (\<lambda>i. xs ! i) (mset [0..<length xs])"
    by (simp only: assms)
  also have "\<dots> = mset (map (\<lambda>i. xs ! i) [0..<length xs])"
    by simp
  also have "\<dots> = mset xs"
    by (simp only: map_nth)
  finally show ?thesis .
qed

lemma take_at_take_at:
  assumes "set idx \<subseteq> {0..<length is}"
  shows "take_at xs (take_at is idx) = take_at (take_at xs is) idx"
  using assms by (auto simp: take_at_def)

lemma take_at_map: "set idx \<subseteq> {0..<length xs} \<Longrightarrow> take_at (map f xs) idx = map f (take_at xs idx)"
  by (auto simp: take_at_def)

lemma take_at_rev: "take_at xs (rev idx) = rev (take_at xs idx)"
  by (simp add: take_at_def rev_map)

lemma length_take_at: "length (take_at xs idx) = length idx"
  by (simp add: take_at_def)

lemma length_non_nan_idx:
  "length (filter (\<lambda>i. items ! i \<noteq> None) [0..<length items]) = length (dropna items)"
proof -
  have "length (take_at items (filter (\<lambda>i. items ! i \<noteq> None) [0..<length items])) =
        length (map Some (dropna items))"
    by (simp only: take_at_present)
  then show ?thesis by (simp add: length_take_at)
qed

lemma nargsort_split:
  "nargsort kind asc items =
     sorted_part kind asc items @ filter (\<lambda>i. items ! i = None) [0..<length items]"
  by (simp add: nargsort_def sorted_part_def Let_def)

lemma mset_sorted_part:
  assumes "argsorts kind"
  shows "mset (sorted_part kind asc items) = mset (filter (\<lambda>i. items ! i \<noteq> None) [0..<length items])"
proof -
  let ?is = "filter (\<lambda>i. items ! i \<noteq> None) [0..<length items]"
  have a: "mset (kind (dropna items)) = mset [0..<length ?is]"
    using argsorts_mset [OF assms, of "dropna items"] by (simp only: length_non_nan_idx)
  have d: "mset (kind (rev (dropna items))) = mset [0..<length (rev ?is)]"
    using argsorts_mset [OF assms, of "rev (dropna items)"] by (simp only: length_non_nan_idx length_rev)
  show ?thesis
  proof (cases asc)
    case True
    then have "sorted_part kind asc items = take_at ?is (kind (dropna items))"
      by (simp only: sorted_part_def if_True)
    then show ?thesis by (simp only: mset_take_at [OF a])
  next
    case False
    then have "sorted_part kind asc items = rev (take_at (rev ?is) (kind (rev (dropna items))))"
      by (simp only: sorted_part_def if_False)
    then show ?thesis by (simp only: mset_rev mset_take_at [OF d])
  qed
qed

lemma mset_nargsort:
  assumes "argsorts kind"
  shows "mset (nargsort kind asc items) = mset [0..<length items]"
proof -
  have "mset (nargsort kind asc items) =
        mset (filter (\<lambda>i. items ! i \<noteq> None) [0..<length items]) +
        mset (filter (\<lambda>i. \<not> items ! i \<noteq> None) [0..<length items])"
    by (simp only: nargsort_split mset_append mset_sorted_part [OF assms] not_not)
  also have "\<dots> = mset [0..<length items]"
    by (simp only: mset_filter multiset_partition [symmetric])
  finally show ?thesis .
qed

lemma keys_sorted_part:
  assumes "argsorts kind"
  shows "\<exists>vs. take_at items (sorted_part kind asc items) = map Some vs \<and>
              (if asc then sorted vs else sorted (rev vs))"
proof -
  let ?is = "filter (\<lambda>i. items ! i \<noteq> None) [0..<length items]"
  let ?ks = "dropna items"
  have al: "take_at items ?is = map Some ?ks"
    by (rule take_at_present)
  have al': "take_at items (rev ?is) = map Some (rev ?ks)"
    by (simp only: take_at_rev al rev_map)
  show ?thesis
  proof (cases asc)
    case True
    let ?p = "kind ?ks"
    have b: "set ?p \<subseteq> {0..<length ?is}"
      using argsorts_set [OF assms, of ?ks] by (simp only: length_non_nan_idx)
    have "take_at items (take_at ?is ?p) = take_at (map Some ?ks) ?p"
      by (simp only: take_at_take_at [OF b] al)
    also have "\<dots> = map Some (take_at ?ks ?p)"
      using argsorts_set [OF assms, of ?ks] by (intro take_at_map) simp
    finally have "take_at items (sorted_part kind asc items) = map Some (take_at ?ks ?p)"
      using True by (simp add: sorted_part_def)
    moreover have "sorted (take_at ?ks ?p)"
      using argsorts_sorted [OF assms, of ?ks] by (simp add: take_at_def)
    ultimately show ?thesis using True by auto
  next
    case False
    let ?p = "kind (rev ?ks)"
    have b: "set ?p \<subseteq> {0..<length (rev ?is)}"
      using argsorts_set [OF assms, of "rev ?ks"] by (simp only: length_non_nan_idx length_rev)
    have "take_at items (take_at (rev ?is) ?p) = take_at (map Some (rev ?ks)) ?p"
      by (simp only: take_at_take_at [OF b] al')
    also have "\<dots> = map Some (take_at (rev ?ks) ?p)"
      using argsorts_set [OF assms, of "rev ?ks"] by (intro take_at_map) simp
    finally have "take_at items (rev (take_at (rev ?is) ?p)) = map Some (rev (take_at (rev ?ks) ?p))"
      by (simp only: take_at_rev rev_map)
    then have "take_at items (sorted_part kind asc items) = map Some (rev (take_at (rev ?ks) ?p))"
      using False by (simp add: sorted_part_def)
    moreover have "sorted (rev (rev (take_at (rev ?ks) ?p)))"
      using argsorts_sorted [OF assms, of "rev ?ks"] by (simp add: take_at_def)
    ultimately show ?thesis using False by auto
  qed
qed

lemma keys_nargsort:
  assumes "argsorts kind"
  shows "\<exists>vs n. take_at items (nargsort kind asc items) = map Some vs @ replicate n None \<and>
              (if asc then sorted vs else sorted (rev vs))"
proof -
  from keys_sorted_part [OF assms, of items asc] obtain vs where
    v: "take_at items (sorted_part kind asc items) = map Some vs"
       "if asc then sorted vs else sorted (rev vs)" by blast
  have "take_at items (filter (\<lambda>i. items ! i = None) [0..<length items]) =
        replicate (length (filter (\<lambda>x. x = None) items)) None"
    by (rule take_at_missing)
  then have "take_at items (nargsort kind asc items) =
        map Some vs @ replicate (length (filter (\<lambda>x. x = None) items)) None"
    using v(1) by (simp add: nargsort_split take_at_def)
  with v(2) show ?thesis by blast
qed

lemma set_nargsort: "argsorts kind \<Longrightarrow> set (nargsort kind asc items) = {0..<length items}"
  using mset_nargsort [of kind asc items] by (metis set_mset_mset set_upt)

lemma mset_sort_values:
  assumes "argsorts (argsort lib)"
  shows "mset (sort_values lib asc ps) = mset ps"
proof -
  have "mset (nargsort (argsort lib) asc (map snd ps)) = mset [0..<length ps]"
    using mset_nargsort [OF assms, of asc "map snd ps"] by (simp only: length_map)
  then show ?thesis by (simp only: sort_values_def mset_take_at)
qed

lemma set_sort_values: "argsorts (argsort lib) \<Longrightarrow> set (sort_values lib asc ps) = set ps"
  using mset_sort_values [of lib asc ps] by (metis set_mset_mset)

lemma length_sort_values: "argsorts (argsort lib) \<Longrightarrow> length (sort_values lib asc ps) = length ps"
  using mset_sort_values [of lib asc ps] by (metis size_mset)

lemma sort_values_Nil_iff: "argsorts (argsort lib) \<Longrightarrow> sort_values lib asc ps = [] \<longleftrightarrow> ps = []"
  using length_sort_values [of lib asc ps] by (metis length_0_conv)

lemma keys_sort_values:
  assumes "argsorts (argsort lib)"
  shows "\<exists>vs n. map snd (sort_values lib asc ps) = map Some vs @ replicate n None \<and>
              (if asc then sorted vs else sorted (rev vs))"
proof -
  let ?idx = "nargsort (argsort lib) asc (map snd ps)"
  have "set ?idx \<subseteq> {0..<length ps}"
    using set_nargsort [OF assms, of asc "map snd ps"] by (simp only: length_map)
  then have "take_at (map snd ps) ?idx = map snd (take_at ps ?idx)"
    by (rule take_at_map)
  then have "map snd (sort_values lib asc ps) = take_at (map snd ps) ?idx"
    by (simp only: sort_values_def)
  with keys_nargsort [OF assms, of "map snd ps" asc] show ?thesis by simp
qed

lemma sorted_wrt_descending:
  "sorted (rev vs) \<Longrightarrow> sorted_wrt descending (map Some vs @ replicate n None)"
proof -
  assume "sorted (rev vs)"
  then have "sorted_wrt (\<lambda>a b. b \<le> a) vs"
    by (simp add: sorted_wrt_rev)
  then have "sorted_wrt descending (map Some vs)"
    by (simp add: sorted_wrt_map)
  moreover have "sorted_wrt descending (replicate n None)"
    by (induction n) auto
  ultimately show ?thesis by (auto simp: sorted_wrt_append)
qed

lemma sorted_wrt_ascending:
  "sorted vs \<Longrightarrow> sorted_wrt ascending (map Some vs @ replicate n None)"
proof -
  assume "sorted vs"
  then have "sorted_wrt ascending (map Some vs)"
    by (simp add: sorted_wrt_map)
  moreover have "sorted_wrt ascending (replicate n None)"
    by (induction n) auto
  ultimately show ?thesis by (auto simp: sorted_wrt_append)
qed

lemma sort_values_descending:
  assumes "argsorts (argsort lib)"
  shows "sorted_wrt (\<lambda>p q. descending (snd p) (snd q)) (sort_values lib False ps)"
proof -
  from keys_sort_values [OF assms, of False ps] obtain vs n where
    "map snd (sort_values lib False ps) = map Some vs @ replicate n None" "sorted (rev vs)"
    by auto
  then have "sorted_wrt descending (map snd (sort_values lib False ps))"
    by (simp only: sorted_wrt_descending)
  then show ?thesis by (simp only: sorted_wrt_map)
qed

lemma sort_values_ascending:
  assumes "argsorts (argsort lib)"
  shows "sorted_wrt (\<lambda>p q. ascending (snd p) (snd q)) (sort_values lib True ps)"
proof -
  from keys_sort_values [OF assms, of True ps] obtain vs n where
    "map snd (sort_values lib True ps) = map Some vs @ replicate n None" "sorted vs"
    by auto
  then have "sorted_wrt ascending (map snd (sort_values lib True ps))"
    by (simp only: sorted_wrt_ascending)
  then show ?thesis by (simp only: sorted_wrt_map)
qed

lemma ascending_refl: "ascending a a"
  by (cases a) auto

lemma ascending_Some: "ascending a (Some m) \<Longrightarrow> \<exists>v. a = Some v \<and> v \<le> m"
  by (cases a) auto

lemma sort_values_first_least:
  assumes "argsorts (argsort lib)" and "sort_values lib True ps = g # gs" and "p \<in> set ps"
  shows "ascending (snd g) (snd p)"
proof -
  have "sorted_wrt (\<lambda>p q. ascending (snd p) (snd q)) (g # gs)"
    using sort_values_ascending [OF assms(1), of ps] assms(2) by simp
  moreover have "p \<in> set (g # gs)"
    using set_sort_values [OF assms(1), of True ps] assms(2,3) by simp
  ultimately show ?thesis by (auto simp: ascending_refl)
qed

lemma zip_upt_key: "(k, i) \<in> set (zip keys [0..<length keys]) \<Longrightarrow> keys ! i = k"
  by (auto simp: set_zip)

lemma rows_argsort:
  assumes "mset rows = mset (zip keys [0..<length keys])" and "sorted (map fst rows)"
  shows "mset (map snd rows) = mset [0..<length keys] \<and> sorted (map (\<lambda>i. keys ! i) (map snd rows))"
proof -
  have "mset (map snd rows) = mset (map snd (zip keys [0..<length keys]))"
    using assms(1) by (metis mset_map)
  then have m: "mset (map snd rows) = mset [0..<length keys]"
    by simp
  have "set rows = set (zip keys [0..<length keys])"
    using assms(1) by (metis set_mset_mset)
  then have "\<forall>r\<in>set rows. keys ! snd r = fst r"
    using zip_upt_key [of _ _ keys] by (metis prod.collapse)
  then have e: "map (\<lambda>i. keys ! i) (map snd rows) = map fst rows"
    by (simp add: comp_def)
  from m assms(2) show ?thesis unfolding e by (intro conjI)
qed

lemma argsorts_stable_argsort: "argsorts stable_argsort"
  unfolding argsorts_def stable_argsort_def
  by (intro allI rows_argsort) (simp_all add: sorted_sort_key)

lemma argsorts_reversing_argsort: "argsorts reversing_argsort"
  unfolding argsorts_def reversing_argsort_def
  by (intro allI rows_argsort) (simp_all add: sorted_sort_key)

section \<open>Grouping and counting\<close>

lemma set_dropna: "set (dropna xs) = {x. Some x \<in> set xs}"
  by (induction xs rule: dropna.induct) auto

lemma dropna_all_present: "None \<notin> set xs \<Longrightarrow> length (dropna xs) = length xs"
  by (induction xs rule: dropna.induct) auto

lemma set_unique: "set (unique xs) = set xs"
  by (simp add: unique_def)

lemma distinct_unique: "distinct (unique xs)"
  by (simp add: unique_def)

lemma map_fst_groupby_mean: "map fst (groupby_mean lib df) = sort (remdups (dropna (map name df)))"
  by (simp add: groupby_mean_def comp_def)

lemma groupby_mean_names:
  "sorted (map fst (groupby_mean lib df)) \<and> distinct (map fst (groupby_mean lib df))"
  by (simp add: map_fst_groupby_mean)

lemma length_groupby_mean: "length (groupby_mean lib df) = length (remdups (dropna (map name df)))"
  by (simp add: groupby_mean_def)

lemma groupby_mean_Nil_iff: "groupby_mean lib df = [] \<longleftrightarrow> (\<forall>r\<in>set df. name r = None)"
proof -
  have "length (groupby_mean lib df) = 0 \<longleftrightarrow> set (dropna (map name df)) = {}"
    by (simp only: length_groupby_mean length_remdups_card_conv) simp
  then have "groupby_mean lib df = [] \<longleftrightarrow> set (dropna (map name df)) = {}"
    by simp
  also have "\<dots> \<longleftrightarrow> (\<forall>r\<in>set df. name r = None)"
    by (auto simp: set_dropna image_iff) (metis not_Some_eq)
  finally show ?thesis .
qed

lemma mset_resorted:
  assumes "argsorts kind" and "length items = length xs"
  shows "mset (take_at xs (nargsort kind asc items)) = mset xs"
proof -
  have "mset (nargsort kind asc items) = mset [0..<length xs]"
    using mset_nargsort [OF assms(1), of asc items] by (simp only: assms(2))
  then show ?thesis by (rule mset_take_at)
qed

lemma sum_list_mset_cong:
  "mset xs = mset ys \<Longrightarrow> sum_list (map f xs) = sum_list (map (f :: 'a \<Rightarrow> nat) ys)"
proof -
  assume "mset xs = mset ys"
  then have "sum_mset (mset (map f xs)) = sum_mset (mset (map f ys))"
    by (metis mset_map)
  then show ?thesis by (simp only: sum_mset_sum_list)
qed

lemma mset_value_counts:
  assumes "argsorts (argsort lib)"
  shows "mset (value_counts lib col) =
         mset (map (\<lambda>v. (v, count_list (dropna col) v)) (unique (dropna col)))"
  unfolding value_counts_def Let_def
  by (rule mset_resorted [OF assms]) (simp only: length_map)

lemma sum_value_counts:
  assumes "argsorts (argsort lib)"
  shows "sum_list (map snd (value_counts lib col)) = length (dropna col)"
proof -
  let ?vs = "dropna col"
  have "sum_list (map snd (value_counts lib col)) =
        sum_list (map snd (map (\<lambda>v. (v, count_list ?vs v)) (unique ?vs)))"
    by (rule sum_list_mset_cong) (rule mset_value_counts [OF assms])
  also have "\<dots> = sum_list (map (count_list ?vs) (unique ?vs))"
    by (simp add: comp_def)
  also have "\<dots> = sum (count_list ?vs) (set (unique ?vs))"
    by (simp add: sum_list_distinct_conv_sum_set distinct_unique)
  also have "\<dots> = length ?vs"
    by (simp add: set_unique sum_count_set)
  finally show ?thesis .
qed

lemma distinct_keys_value_counts:
  assumes "argsorts (argsort lib)"
  shows "distinct (map fst (value_counts lib col))"
proof -
  let ?ps = "map (\<lambda>v. (v, count_list (dropna col) v)) (unique (dropna col))"
  have "map fst ?ps = unique (dropna col)"
    by (simp add: comp_def)
  then have d: "distinct (map fst ?ps)"
    by (simp only: distinct_unique)
  have "mset (map fst (value_counts lib col)) = mset (map fst ?ps)"
    using mset_value_counts [OF assms, of col] by (metis mset_map)
  with d show ?thesis by (metis mset_eq_imp_distinct_iff)
qed

lemma mset_sort_index: "argsorts (argsort lib) \<Longrightarrow> mset (sort_index lib s) = mset s"
  unfolding sort_index_def by (rule mset_resorted) (simp_all only: length_map)

lemma sum_sort_index:
  "argsorts (argsort lib) \<Longrightarrow> sum_list (map snd (sort_index lib s)) = sum_list (map snd s)"
  by (rule sum_list_mset_cong) (rule mset_sort_index)

lemma keys_sort_index:
  assumes "argsorts (argsort lib)" and "distinct (map fst s)"
  shows "sorted_wrt (<) (map fst (sort_index lib s))"
proof -
  let ?items = "map (\<lambda>p. Some (fst p)) s"
  let ?idx = "nargsort (argsort lib) True ?items"
  from keys_nargsort [OF assms(1), of ?items True] obtain vs n where
    k: "take_at ?items ?idx = map Some vs @ replicate n None" and v: "sorted vs"
    by auto
  have "set ?idx \<subseteq> {0..<length s}"
    using set_nargsort [OF assms(1), of True ?items] by (simp only: length_map)
  then have "take_at ?items ?idx = map (\<lambda>p. Some (fst p)) (take_at s ?idx)"
    by (rule take_at_map)
  then have e: "map Some (map fst (sort_index lib s)) = map Some vs @ replicate n None"
    using k by (simp add: sort_index_def comp_def)
  have "n = 0"
  proof (rule ccontr)
    assume "n \<noteq> 0"
    then have "None \<in> set (map Some vs @ replicate n None)" by simp
    then have "None \<in> set (map Some (map fst (sort_index lib s)))" by (simp only: e)
    then show False by auto
  qed
  with e have "map Some (map fst (sort_index lib s)) = map Some vs" by simp
  then have "map fst (sort_index lib s) = vs"
    using inj_map_eq_map [of Some "map fst (sort_index lib s)" vs] by (simp only: inj_Some)
  with v have "sorted (map fst (sort_index lib s))" by simp
  moreover have "distinct (map fst (sort_index lib s))"
    using mset_sort_index [OF assms(1), of s] assms(2)
    by (metis mset_map mset_eq_imp_distinct_iff)
  ultimately show ?thesis by (simp add: strict_sorted_iff)
qed

lemma value_counts_Nil_iff:
  assumes "argsorts (argsort lib)"
  shows "value_counts lib col = [] \<longleftrightarrow> dropna col = []"
proof -
  have "value_counts lib col = [] \<longleftrightarrow> mset (value_counts lib col) = {#}"
    by simp
  also have "\<dots> \<longleftrightarrow> unique (dropna col) = []"
    by (simp only: mset_value_counts [OF assms]) simp
  also have "\<dots> \<longleftrightarrow> dropna col = []"
    by (simp add: unique_def)
  finally show ?thesis .
qed

lemma sort_index_Nil_iff:
  assumes "argsorts (argsort lib)"
  shows "sort_index lib s = [] \<longleftrightarrow> s = []"
proof -
  have "sort_index lib s = [] \<longleftrightarrow> mset (sort_index lib s) = {#}"
    by simp
  also have "\<dots> \<longleftrightarrow> s = []"
    by (simp only: mset_sort_index [OF assms]) simp
  finally show ?thesis .
qed

lemma dropna_Nil_iff: "dropna (map f xs) = [] \<longleftrightarrow> filter (\<lambda>r. f r \<noteq> None) xs = []"
  by (induction xs) (auto split: option.splits)

lemma map_Number: "map fst (map (\<lambda>(k, c). (Number k, c)) xs) = map Number (map fst xs)"
  by (induction xs) auto

lemma map_snd_labelled: "map snd (map (\<lambda>(k, c). (f k, c)) xs) = map snd xs"
  by (induction xs) auto

section \<open>The fields of a report\<close>

lemma argsorts_lib_stable: "argsorts (argsort lib_stable)"
  by (simp add: lib_stable_def argsorts_stable_argsort)

lemma argsorts_lib_reversing: "argsorts (argsort lib_reversing)"
  by (simp add: lib_reversing_def argsorts_reversing_argsort)

lemma length_top_products_data: "length (top_products_data cdf rows) = length rows"
  by (simp add: top_products_data_def)

lemma top_products_data_Nil_iff: "top_products_data cdf rows = [] \<longleftrightarrow> rows = []"
  by (simp add: top_products_data_def)

lemma map_tp_name: "map tp_name (top_products_data cdf rows) = map fst rows"
  by (induction rows) (auto simp: top_products_data_def Let_def)

lemma map_tp_rating: "map tp_rating (top_products_data cdf rows) = map snd rows"
  by (induction rows) (auto simp: top_products_data_def Let_def)

lemma top_entry_row:
  "p \<in> set (top_products_data cdf rows) \<Longrightarrow> (tp_name p, tp_rating p) \<in> set rows"
  by (auto simp: top_products_data_def Let_def)

lemma sorted_top_products_data:
  "sorted_wrt (\<lambda>p q. descending (tp_rating p) (tp_rating q)) (top_products_data cdf rows) =
   sorted_wrt (\<lambda>p q. descending (snd p) (snd q)) rows"
  by (simp add: top_products_data_def sorted_wrt_map case_prod_beta Let_def)


lemma worst_product_data_Nil: "worst_product_data cdf [] = None"
  by (simp add: worst_product_data_def)

lemma worst_product_data_Cons:
  "worst_product_data cdf (g # gs) =
     Some \<lparr>wp_name = fst g, wp_rating = snd g,
       improvement_summaries = take 5 (dropna (map chatgpt_summary
         (filter (\<lambda>r. name r = Some (fst g) \<and> rating_sentiment r = Some ''Negative'') cdf)))\<rparr>"
  by (cases g) (auto simp: worst_product_data_def Let_def conj_commute)

lemma filter_category:
  "filter P (filter (\<lambda>r. product_category r = Some c) df) =
   filter (\<lambda>r. product_category r = Some c \<and> P r) df"
  by (induction df) auto

text \<open>
  A category that has rows either has something to draw in both charts, and then the
  analysis returns a report with the fields below, or it has not, and then the analysis
  ends with the exception of a plot call. Under the data model of the specification,
  where every review has a rating and a sentiment label, every category that occurs has
  something to draw.
\<close>

lemma drawable_counts:
  assumes "argsorts (argsort lib)"
  shows "drawable df c \<longleftrightarrow>
         value_counts lib (map rating_sentiment (filter (\<lambda>r. product_category r = Some c) df)) \<noteq> [] \<and>
         sort_index lib (value_counts lib (map reviews_rating (filter (\<lambda>r. product_category r = Some c) df))) \<noteq> []"
  by (simp only: sort_index_Nil_iff [OF assms] value_counts_Nil_iff [OF assms] dropna_Nil_iff
      filter_category drawable_def)

lemma drawable_rows: "drawable df c \<Longrightarrow> filter (\<lambda>r. product_category r = Some c) df \<noteq> []"
  by (auto simp: drawable_def filter_empty_conv)

lemma populated_drawable:
  assumes "Some c \<in> set (map product_category df)"
    and "\<forall>r\<in>set df. rating_sentiment r \<noteq> None \<and> reviews_rating r \<noteq> None"
  shows "drawable df c"
  using assms by (auto simp: drawable_def filter_empty_conv)


lemma report_fields:
  assumes "drawable df c" and "argsorts (argsort lib)"
  obtains rep where
    "fst (analyze_category_data lib plt df c) = Inr (Some rep)"
    "review_count rep = length (filter (\<lambda>r. product_category r = Some c) df)"
    "product_count rep = length (unique (map name (filter (\<lambda>r. product_category r = Some c) df)))"
    "top_products rep = top_products_data (filter (\<lambda>r. product_category r = Some c) df)
       (take 3 (sort_values lib False (groupby_mean lib (filter (\<lambda>r. product_category r = Some c) df))))"
    "worst_product rep = worst_product_data (filter (\<lambda>r. product_category r = Some c) df)
       (take 1 (sort_values lib True (groupby_mean lib (filter (\<lambda>r. product_category r = Some c) df))))"
    "bars (sentiment_chart rep) = map (\<lambda>(k, n). (Text k, n))
       (value_counts lib (map rating_sentiment (filter (\<lambda>r. product_category r = Some c) df)))"
    "bars (rating_chart rep) = map (\<lambda>(k, n). (Number k, n))
       (sort_index lib (value_counts lib (map reviews_rating (filter (\<lambda>r. product_category r = Some c) df))))"
proof -
  from assms(1) have "filter (\<lambda>r. product_category r = Some c) df \<noteq> []"
    by (rule drawable_rows)
  with assms(1) that show ?thesis
    by (simp add: analyze_category_data_eq drawable_counts [OF assms(2)])
qed

lemma take_all_rows:
  "argsorts (argsort lib) \<Longrightarrow> length ps \<le> n \<Longrightarrow>
   take n (sort_values lib asc ps) = sort_values lib asc ps"
  by (simp add: length_sort_values)





lemma sublist_join: "x \<in> set xs \<Longrightarrow> sublist x (join sep xs)"
proof (induction sep xs rule: join.induct)
  case (1 sep)
  then show ?case by simp
next
  case (2 sep y)
  then show ?case by simp
next
  case (3 sep y z zs)
  show ?case
  proof (cases "x = y")
    case True
    then show ?thesis by (simp add: sublist_def) (metis append_Nil)
  next
    case False
    with 3 have "sublist x (join sep (z # zs))" by simp
    then obtain ps ss where "join sep (z # zs) = ps @ x @ ss"
      by (auto simp: sublist_def)
    then have "join sep (y # z # zs) = (y @ sep @ ps) @ x @ ss" by simp
    then show ?thesis unfolding sublist_def by blast
  qed
qed

lemma distinct_names_sort_values:
  assumes "argsorts (argsort lib)" and "distinct (map fst ps)"
  shows "distinct (map fst (sort_values lib asc ps))"
proof -
  have "mset (map fst (sort_values lib asc ps)) = mset (map fst ps)"
    using mset_sort_values [OF assms(1), of asc ps] by (metis mset_map)
  with assms(2) show ?thesis by (metis mset_eq_imp_distinct_iff)
qed

lemma sorted_wrt_take_drop:
  assumes "sorted_wrt R xs" and "x \<in> set (take n xs)" and "y \<in> set (drop n xs)"
  shows "R x y"
proof -
  from assms(1) have "sorted_wrt R (take n xs @ drop n xs)" by simp
  with assms(2,3) show ?thesis by (simp only: sorted_wrt_append)
qed

lemma in_set_dropI: "x \<in> set xs \<Longrightarrow> x \<notin> set (take n xs) \<Longrightarrow> x \<in> set (drop n xs)"
proof -
  have "set xs = set (take n xs) \<union> set (drop n xs)"
    by (metis append_take_drop_id set_append)
  then show "x \<in> set xs \<Longrightarrow> x \<notin> set (take n xs) \<Longrightarrow> x \<in> set (drop n xs)"
    by blast
qed

section \<open>The scenario of the specification\<close>

text \<open>
  Category Accessories with product A rated 5, 5 and 4 (all Positive) and product B rated
  2 and 1 (all Negative), computed with the exact mean and the sort that keeps equal keys
  in order: the top products are A with mean 14/3 and B with mean 3/2, the worst product
  is B, the sentiment counts are Positive 3 and Negative 2, and the rating counts are
  1, 1, 1 and 2 for the ratings 1, 2, 4 and 5.
\<close>

lemma accessories_report:
  "analyze_category_data lib_stable plt accessories ''Accessories'' =
     (Inr (Some \<lparr>category = ''Accessories'', product_count = 2, review_count = 5,
        avg_rating = Some (17 / 5),
        top_products =
          [\<lparr>tp_name = ''A'', tp_rating = Some (14 / 3), positive_summaries = [''sturdy'', ''works'']\<rparr>,
           \<lparr>tp_name = ''B'', tp_rating = Some (3 / 2), positive_summaries = []\<rparr>],
        worst_product =
          Some \<lparr>wp_name = ''B'', wp_rating = Some (3 / 2),
                improvement_summaries = [''frayed'', ''broke'']\<rparr>,
        sentiment_chart =
          \<lparr>bars = [(Text ''Positive'', 3), (Text ''Negative'', 2)],
           fig_title = ''Sentiment Distribution - Accessories'',
           xlabel = ''Sentiment'', ylabel = ''Count''\<rparr>,
        rating_chart =
          \<lparr>bars = [(Number 1, 1), (Number 2, 1), (Number 4, 1), (Number 5, 2)],
           fig_title = ''Rating Distribution - Accessories'',
           xlabel = ''Rating'', ylabel = ''Count''\<rparr>,
        image_url =
          ''https://images-na.ssl-images-amazon.com/images/G/01/AmazonBasics/landing/electronics._CB485921693_.jpg''\<rparr>),
      plt)"
proof -
  have c: "filter (\<lambda>r. product_category r = Some ''Accessories'') accessories = accessories"
    by (simp add: accessories_def)
  have g: "groupby_mean lib_stable accessories = [(''A'', Some (14 / 3)), (''B'', Some (3 / 2))]"
    by (simp add: accessories_def groupby_mean_def mean_def lib_stable_def exact_mean_def)
  have d: "sort_values lib_stable False [(''A'', Some (14 / 3)), (''B'', Some (3 / 2))] =
             [(''A'', Some (14 / 3)), (''B'', Some (3 / 2))]"
    by code_simp
  have u: "sort_values lib_stable True [(''A'', Some (14 / 3)), (''B'', Some (3 / 2))] =
             [(''B'', Some (3 / 2)), (''A'', Some (14 / 3))]"
    by code_simp
  have t: "top_products_data accessories [(''A'', Some (14 / 3)), (''B'', Some (3 / 2))] =
          [\<lparr>tp_name = ''A'', tp_rating = Some (14 / 3), positive_summaries = [''sturdy'', ''works'']\<rparr>,
           \<lparr>tp_name = ''B'', tp_rating = Some (3 / 2), positive_summaries = []\<rparr>]"
    by (simp add: accessories_def top_products_data_def)
  have w: "worst_product_data accessories [(''B'', Some (3 / 2))] =
          Some \<lparr>wp_name = ''B'', wp_rating = Some (3 / 2),
                improvement_summaries = [''frayed'', ''broke'']\<rparr>"
    by (simp add: accessories_def worst_product_data_def)
  have s: "value_counts lib_stable (map rating_sentiment accessories) =
             [(''Positive'', 3), (''Negative'', 2)]"
    unfolding accessories_def by code_simp
  have v: "sort_index lib_stable (value_counts lib_stable (map reviews_rating accessories)) =
             [(1, 1), (2, 1), (4, 1), (5, 2)]"
    unfolding accessories_def by code_simp
  have k: "length (unique (map name accessories)) = 2"
    by (simp add: accessories_def unique_def)
  have n: "length accessories = 5"
    by (simp add: accessories_def)
  have a: "mean lib_stable (map reviews_rating accessories) = Some (17 / 5)"
    by (simp add: accessories_def mean_def lib_stable_def exact_mean_def)
  have ne: "accessories \<noteq> []"
    by (simp add: accessories_def)
  have i: "map_of DEFAULT_CATEGORY_IMAGES ''Accessories'' = Some
     ''https://images-na.ssl-images-amazon.com/images/G/01/AmazonBasics/landing/electronics._CB485921693_.jpg''"
    by (simp add: DEFAULT_CATEGORY_IMAGES_def)
  show ?thesis
    by (simp add: analyze_category_data_eq c g d u t w s v k n a ne i)
qed

section \<open>The properties\<close>



text \<open>
  Claim C6. When no row of the table has the category \<open>c\<close>, the analysis returns
  \<open>None\<close>, the "no data" result: it raises nothing, builds no report and leaves the
  figure registry untouched. This holds whatever the library computes.
\<close>
theorem C6_no_data:
  assumes "Some c \<notin> set (map product_category df)"
  shows "analyze_category_data lib plt df c = (Inr None, plt)"
proof -
  from assms have "filter (\<lambda>r. product_category r = Some c) df = []"
    by (force simp: filter_empty_conv image_iff)
  then show ?thesis by (simp add: analyze_category_data_eq)
qed

theorem C6_no_data_witness:
  "Some ''E-readers'' \<notin> set (map product_category accessories) \<and>
   analyze_category_data lib_stable [] accessories ''E-readers'' = (Inr None, [])"
proof -
  have h: "Some ''E-readers'' \<notin> set (map product_category accessories)"
    by (simp add: accessories_def)
  from C6_no_data [OF h, where plt = "[]" and lib = lib_stable] h show ?thesis by simp
qed

text \<open>
  Claim C8. The analysis is deterministic. Its result, the report, the "no data" result
  or the exception, depends on the table, the category and the library only, not on the
  figures that happen to be open when it is called; so a second invocation on the same
  input, made after the first, has the same result. A call that returns leaves the
  registry as it found it; a call that raises leaves one more figure open, the blank one
  that the plot call was to draw on.
\<close>
theorem C8_deterministic:
  "fst (analyze_category_data lib plt df c) = fst (analyze_category_data lib plt' df c) \<and>
   fst (analyze_category_data lib (snd (analyze_category_data lib plt df c)) df c) =
     fst (analyze_category_data lib plt df c) \<and>
   snd (analyze_category_data lib plt df c) =
     (case fst (analyze_category_data lib plt df c) of
        Inr result \<Rightarrow> plt
      | Inl e \<Rightarrow> plt @ [(Suc (fold max (map fst plt) 0), blank)])"
  by (simp add: analyze_category_data_eq)

text \<open>
  Claim C7. When the input file lacks at least one of the five required columns, the run
  prints the loading notice, reads the file, prints an error message that contains the
  name of every missing column and the hint that follows it, and returns: the report is
  not generated, so no analysis runs and nothing is written.
\<close>
theorem C7_missing_columns:
  assumes "\<not> set required_columns \<subseteq> set columns"
  shows "main lib a columns df =
           [Print (''Loading data from '' @ input a @ ''...''),
            ReadCsv (input a),
            Print (''Error: Missing required columns: '' @ join '', '' (missing_columns columns)),
            Print ''Please make sure your input CSV contains these columns.''] \<and>
         set (missing_columns columns) = set required_columns - set columns \<and>
         (\<forall>col\<in>set required_columns - set columns.
            sublist col (join '', '' (missing_columns columns))) \<and>
         filter is_GenerateHtmlReport (main lib a columns df) = []"
proof -
  have m: "set (missing_columns columns) = set required_columns - set columns"
    by (auto simp: missing_columns_def)
  with assms have ne: "missing_columns columns \<noteq> []" by auto
  have s: "\<forall>col\<in>set required_columns - set columns.
            sublist col (join '', '' (missing_columns columns))"
    using m sublist_join by blast
  from ne have e: "main lib a columns df =
           [Print (''Loading data from '' @ input a @ ''...''),
            ReadCsv (input a),
            Print (''Error: Missing required columns: '' @ join '', '' (missing_columns columns)),
            Print ''Please make sure your input CSV contains these columns.'']"
    by (simp add: main_def)
  have "filter is_GenerateHtmlReport (main lib a columns df) = []"
    by (simp only: e) simp
  with m s e show ?thesis by blast
qed

theorem C7_missing_columns_witness:
  "\<not> set required_columns \<subseteq> set [''name'', ''reviews.rating'', ''chatgpt_summary''] \<and>
   main lib_stable
        \<lparr>input = ''reviews.csv'', output_dir = ''report'', title = ''Amazon Product Analysis''\<rparr>
        [''name'', ''reviews.rating'', ''chatgpt_summary''] accessories =
     [Print ''Loading data from reviews.csv...'',
      ReadCsv ''reviews.csv'',
      Print ''Error: Missing required columns: product_category, rating_sentiment'',
      Print ''Please make sure your input CSV contains these columns.'']"
proof -
  have h: "\<not> set required_columns \<subseteq> set [''name'', ''reviews.rating'', ''chatgpt_summary'']"
    by (simp add: required_columns_def)
  have j: "join '', '' (missing_columns [''name'', ''reviews.rating'', ''chatgpt_summary'']) =
             ''product_category, rating_sentiment''"
    by (simp add: required_columns_def missing_columns_def)
  from C7_missing_columns [OF h, where lib = lib_stable and df = accessories and
      a = "\<lparr>input = ''reviews.csv'', output_dir = ''report'', title = ''Amazon Product Analysis''\<rparr>"]
    h j
  show ?thesis by simp
qed



text \<open>
  Claim C3, as amended. For every category that has a row with a product name and
  something to draw in both charts, and every library whose sort meets its contract, the
  analysis returns a report whose \<open>worst_product\<close> is present; its name and rating are a row of the grouped table,
  and its rating is at most the mean rating of every product of the category: it stands
  before every row in the ascending order, so for every product that has a mean the
  worst product has a mean, and one that is not greater. (For a category whose rows all
  lack a product name the report has no worst product: see the counterexample.)
\<close>
theorem C3_worst_product:
  assumes "filter (\<lambda>r. product_category r = Some c \<and> name r \<noteq> None) df \<noteq> []"
    and "argsorts (argsort lib)"
    and "drawable df c"
  shows "\<exists>rep w. fst (analyze_category_data lib plt df c) = Inr (Some rep) \<and>
           worst_product rep = Some w \<and>
           (wp_name w, wp_rating w) \<in>
             set (groupby_mean lib (filter (\<lambda>r. product_category r = Some c) df)) \<and>
           (\<forall>g\<in>set (groupby_mean lib (filter (\<lambda>r. product_category r = Some c) df)).
              ascending (wp_rating w) (snd g)) \<and>
           (\<forall>g\<in>set (groupby_mean lib (filter (\<lambda>r. product_category r = Some c) df)).
              \<forall>m. snd g = Some m \<longrightarrow> (\<exists>v. wp_rating w = Some v \<and> v \<le> m))"
proof -
  let ?cdf = "filter (\<lambda>r. product_category r = Some c) df"
  let ?groups = "groupby_mean lib ?cdf"
  from assms(1) obtain r0 where r0: "r0 \<in> set df" "product_category r0 = Some c" "name r0 \<noteq> None"
    by (auto simp: filter_empty_conv)
  then have ne: "?cdf \<noteq> []" by (auto simp: filter_empty_conv)
  from r0 have "\<not> (\<forall>r\<in>set ?cdf. name r = None)" by auto
  then have gne: "?groups \<noteq> []" using groupby_mean_Nil_iff [of lib ?cdf] by blast
  then have "sort_values lib True ?groups \<noteq> []"
    using sort_values_Nil_iff [OF assms(2), of True ?groups] by blast
  then obtain g gs where gs: "sort_values lib True ?groups = g # gs"
    by (cases "sort_values lib True ?groups") auto
  from assms(3,2) obtain rep where
    r: "fst (analyze_category_data lib plt df c) = Inr (Some rep)" and
    w: "worst_product rep = worst_product_data ?cdf (take 1 (sort_values lib True ?groups))"
    by (rule report_fields [where plt = plt])
  let ?w = "\<lparr>wp_name = fst g, wp_rating = snd g,
       improvement_summaries = take 5 (dropna (map chatgpt_summary
         (filter (\<lambda>r. name r = Some (fst g) \<and> rating_sentiment r = Some ''Negative'') ?cdf)))\<rparr>"
  have "worst_product rep = Some ?w"
    by (simp add: w gs worst_product_data_Cons)
  then obtain wp where wp: "worst_product rep = Some wp" "wp_name wp = fst g" "wp_rating wp = snd g"
    by simp
  have "g \<in> set ?groups"
    using set_sort_values [OF assms(2), of True ?groups] gs by (metis list.set_intros(1))
  then have mem: "(wp_name wp, wp_rating wp) \<in> set ?groups"
    by (simp add: wp)
  have least: "\<forall>p\<in>set ?groups. ascending (wp_rating wp) (snd p)"
    using sort_values_first_least [OF assms(2) gs] by (simp add: wp)
  have least': "\<forall>p\<in>set ?groups. \<forall>m. snd p = Some m \<longrightarrow> (\<exists>v. wp_rating wp = Some v \<and> v \<le> m)"
  proof (intro ballI allI impI)
    fix p m
    assume "p \<in> set ?groups" and "snd p = Some m"
    with least have "ascending (wp_rating wp) (Some m)" by metis
    then show "\<exists>v. wp_rating wp = Some v \<and> v \<le> m" by (rule ascending_Some)
  qed
  show ?thesis
  proof (intro exI conjI)
    show "fst (analyze_category_data lib plt df c) = Inr (Some rep)" by (rule r)
    show "worst_product rep = Some wp" by (rule wp(1))
    show "(wp_name wp, wp_rating wp) \<in> set ?groups" by (rule mem)
    show "\<forall>g\<in>set ?groups. ascending (wp_rating wp) (snd g)" by (rule least)
    show "\<forall>g\<in>set ?groups. \<forall>m. snd g = Some m \<longrightarrow> (\<exists>v. wp_rating wp = Some v \<and> v \<le> m)"
      by (rule least')
  qed
qed

theorem C3_worst_product_witness:
  "filter (\<lambda>r. product_category r = Some ''Accessories'' \<and> name r \<noteq> None) accessories \<noteq> [] \<and>
   argsorts (argsort lib_stable) \<and>
   drawable accessories ''Accessories'' \<and>
   (\<exists>rep w. fst (analyze_category_data lib_stable [] accessories ''Accessories'') = Inr (Some rep) \<and>
      worst_product rep = Some w \<and>
      (wp_name w, wp_rating w) \<in> set [(''A'', Some (14 / 3)), (''B'', Some (3 / 2))] \<and>
      ascending (wp_rating w) (Some (14 / 3)) \<and> ascending (wp_rating w) (Some (3 / 2)))"
proof -
  have h: "filter (\<lambda>r. product_category r = Some ''Accessories'' \<and> name r \<noteq> None) accessories \<noteq> []"
    by (simp add: accessories_def)
  have c: "filter (\<lambda>r. product_category r = Some ''Accessories'') accessories = accessories"
    by (simp add: accessories_def)
  have g: "groupby_mean lib_stable accessories = [(''A'', Some (14 / 3)), (''B'', Some (3 / 2))]"
    by (simp add: accessories_def groupby_mean_def mean_def lib_stable_def exact_mean_def)
  have d: "drawable accessories ''Accessories''"
    by (simp add: accessories_def drawable_def)
  from C3_worst_product [OF h argsorts_lib_stable d, where plt = "[]"] h argsorts_lib_stable d
  show ?thesis
    by (simp only: c g) auto
qed

text \<open>
  The table of one review without a product name: its category has a row, a report is
  returned, and the worst product of that report is absent.
\<close>

theorem C3_counterexample:
  "filter (\<lambda>r. product_category r = Some ''Accessories'') unnamed \<noteq> [] \<and>
   argsorts (argsort lib_stable) \<and>
   drawable unnamed ''Accessories'' \<and>
   (\<exists>rep. fst (analyze_category_data lib_stable [] unnamed ''Accessories'') = Inr (Some rep) \<and>
      worst_product rep = None)"
proof -
  have a: "filter (\<lambda>r. product_category r = Some ''Accessories'') unnamed \<noteq> []"
    by (simp add: unnamed_def)
  have d: "drawable unnamed ''Accessories''"
    by (simp add: unnamed_def drawable_def)
  have c: "filter (\<lambda>r. product_category r = Some ''Accessories'') unnamed = unnamed"
    by (simp add: unnamed_def)
  have g: "groupby_mean lib_stable unnamed = []"
    by (simp add: unnamed_def groupby_mean_def)
  have s: "sort_values lib_stable True [] = ([] :: (string \<times> rat option) list)"
    using sort_values_Nil_iff [OF argsorts_lib_stable] by blast
  from d argsorts_lib_stable obtain rep where
    r: "fst (analyze_category_data lib_stable [] unnamed ''Accessories'') = Inr (Some rep)" and
    w: "worst_product rep = worst_product_data
          (filter (\<lambda>r. product_category r = Some ''Accessories'') unnamed)
          (take 1 (sort_values lib_stable True
             (groupby_mean lib_stable (filter (\<lambda>r. product_category r = Some ''Accessories'') unnamed))))"
    by (rule report_fields [where plt = "[]"])
  have "worst_product rep = None"
    by (simp add: w c g s worst_product_data_Nil)
  with r have "\<exists>rep. fst (analyze_category_data lib_stable [] unnamed ''Accessories'') = Inr (Some rep) \<and>
      worst_product rep = None"
    by blast
  with a argsorts_lib_stable d show ?thesis by (intro conjI)
qed

text \<open>
  Claim C9. The worst product is the first row of the grouped table sorted ascending by
  mean rating, whatever the top list holds. In the report of a category with fewer than
  four distinct product names, the name of the worst product also occurs among the names
  of \<open>top_products\<close>: nothing removes it from the top list. This holds for every
  library whose sort meets its contract and every category that has rows and something to
  draw in both charts, for which a report is returned.
\<close>
theorem C9_worst_among_top:
  assumes "filter (\<lambda>r. product_category r = Some c) df \<noteq> []"
    and "length (remdups (dropna (map name (filter (\<lambda>r. product_category r = Some c) df)))) < 4"
    and "argsorts (argsort lib)"
    and "drawable df c"
  shows "\<exists>rep. fst (analyze_category_data lib plt df c) = Inr (Some rep) \<and>
           map_option (\<lambda>w. (wp_name w, wp_rating w)) (worst_product rep) =
             (case sort_values lib True
                     (groupby_mean lib (filter (\<lambda>r. product_category r = Some c) df)) of
                [] \<Rightarrow> None | g # gs \<Rightarrow> Some g) \<and>
           (\<forall>w. worst_product rep = Some w \<longrightarrow> wp_name w \<in> set (map tp_name (top_products rep)))"
proof -
  let ?cdf = "filter (\<lambda>r. product_category r = Some c) df"
  let ?groups = "groupby_mean lib ?cdf"
  from assms(4,3) obtain rep where
    r: "fst (analyze_category_data lib plt df c) = Inr (Some rep)" and
    t: "top_products rep = top_products_data ?cdf (take 3 (sort_values lib False ?groups))" and
    w: "worst_product rep = worst_product_data ?cdf (take 1 (sort_values lib True ?groups))"
    by (rule report_fields [where plt = plt])
  from assms(2) have "length ?groups \<le> 3"
    by (simp add: length_groupby_mean)
  then have "take 3 (sort_values lib False ?groups) = sort_values lib False ?groups"
    by (rule take_all_rows [OF assms(3)])
  then have names: "set (map tp_name (top_products rep)) = set (map fst ?groups)"
    by (simp only: t map_tp_name set_map set_sort_values [OF assms(3)])
  show ?thesis
  proof (cases "sort_values lib True ?groups")
    case Nil
    with r w show ?thesis by (simp add: worst_product_data_Nil)
  next
    case (Cons g gs)
    then have "g \<in> set ?groups"
      using set_sort_values [OF assms(3), of True ?groups] by (metis list.set_intros(1))
    then have "fst g \<in> set (map tp_name (top_products rep))"
      by (simp only: names) simp
    with r w Cons show ?thesis
      by (auto simp: worst_product_data_Cons)
  qed
qed

theorem C9_worst_among_top_witness:
  "filter (\<lambda>r. product_category r = Some ''Accessories'') accessories \<noteq> [] \<and>
   length (remdups (dropna (map name (filter (\<lambda>r. product_category r = Some ''Accessories'') accessories)))) = 2 \<and>
   argsorts (argsort lib_stable) \<and>
   drawable accessories ''Accessories'' \<and>
   (\<exists>rep. fst (analyze_category_data lib_stable [] accessories ''Accessories'') = Inr (Some rep) \<and>
      map_option (\<lambda>w. (wp_name w, wp_rating w)) (worst_product rep) = Some (''B'', Some (3 / 2)) \<and>
      (\<forall>w. worst_product rep = Some w \<longrightarrow> wp_name w \<in> set (map tp_name (top_products rep))))"
proof -
  have h: "filter (\<lambda>r. product_category r = Some ''Accessories'') accessories \<noteq> []"
    by (simp add: accessories_def)
  have c: "filter (\<lambda>r. product_category r = Some ''Accessories'') accessories = accessories"
    by (simp add: accessories_def)
  have k: "length (remdups (dropna (map name accessories))) = 2"
    by (simp add: accessories_def)
  have g: "groupby_mean lib_stable accessories = [(''A'', Some (14 / 3)), (''B'', Some (3 / 2))]"
    by (simp add: accessories_def groupby_mean_def mean_def lib_stable_def exact_mean_def)
  have s: "sort_values lib_stable True [(''A'', Some (14 / 3)), (''B'', Some (3 / 2))] =
             [(''B'', Some (3 / 2)), (''A'', Some (14 / 3))]"
    by code_simp
  have k4: "length (remdups (dropna (map name (filter (\<lambda>r. product_category r = Some ''Accessories'') accessories)))) < 4"
    by (simp add: c k)
  have d: "drawable accessories ''Accessories''"
    by (simp add: accessories_def drawable_def)
  from C9_worst_among_top [OF h k4 argsorts_lib_stable d, where plt = "[]"] h k argsorts_lib_stable d
  show ?thesis
    by (simp only: c g s) auto
qed

text \<open>
  Claim C10, as amended. For a category that has rows, and something to draw in both
  charts, the analysis returns a report, in which the length of \<open>top_products\<close> is the minimum of 3 and the number of distinct product names that
  are present in the rows of the category, and \<open>top_products\<close> is non-empty exactly
  when some row of the category has a product name; this for every library whose sort
  meets its contract. (For a category whose rows all lack a product name the top list is
  empty: see the counterexample.)
\<close>
theorem C10_top_products_length:
  assumes "filter (\<lambda>r. product_category r = Some c) df \<noteq> []"
    and "argsorts (argsort lib)"
    and "drawable df c"
  shows "\<exists>rep. fst (analyze_category_data lib plt df c) = Inr (Some rep) \<and>
           length (top_products rep) =
             min 3 (length (remdups (dropna (map name (filter (\<lambda>r. product_category r = Some c) df))))) \<and>
           (top_products rep \<noteq> [] \<longleftrightarrow>
              filter (\<lambda>r. product_category r = Some c \<and> name r \<noteq> None) df \<noteq> [])"
proof -
  let ?cdf = "filter (\<lambda>r. product_category r = Some c) df"
  let ?groups = "groupby_mean lib ?cdf"
  from assms(3,2) obtain rep where
    r: "fst (analyze_category_data lib plt df c) = Inr (Some rep)" and
    t: "top_products rep = top_products_data ?cdf (take 3 (sort_values lib False ?groups))"
    by (rule report_fields [where plt = plt])
  have len: "length (top_products rep) = min 3 (length (remdups (dropna (map name ?cdf))))"
    by (simp add: t length_top_products_data length_sort_values [OF assms(2)]
        length_groupby_mean min.commute)
  have "top_products rep \<noteq> [] \<longleftrightarrow> ?groups \<noteq> []"
    by (simp add: t top_products_data_Nil_iff sort_values_Nil_iff [OF assms(2)])
  also have "\<dots> \<longleftrightarrow> \<not> (\<forall>r\<in>set ?cdf. name r = None)"
    by (simp only: groupby_mean_Nil_iff)
  also have "\<dots> \<longleftrightarrow> filter (\<lambda>r. product_category r = Some c \<and> name r \<noteq> None) df \<noteq> []"
    by (auto simp: filter_empty_conv)
  finally have ne: "top_products rep \<noteq> [] \<longleftrightarrow>
      filter (\<lambda>r. product_category r = Some c \<and> name r \<noteq> None) df \<noteq> []" .
  from r len ne show ?thesis by blast
qed

theorem C10_top_products_length_witness:
  "filter (\<lambda>r. product_category r = Some ''Accessories'') accessories \<noteq> [] \<and>
   argsorts (argsort lib_stable) \<and>
   drawable accessories ''Accessories'' \<and>
   (\<exists>rep. fst (analyze_category_data lib_stable [] accessories ''Accessories'') = Inr (Some rep) \<and>
      length (top_products rep) = 2 \<and> top_products rep \<noteq> [])"
proof -
  have h: "filter (\<lambda>r. product_category r = Some ''Accessories'') accessories \<noteq> []"
    by (simp add: accessories_def)
  have c: "filter (\<lambda>r. product_category r = Some ''Accessories'') accessories = accessories"
    by (simp add: accessories_def)
  have k: "length (remdups (dropna (map name accessories))) = 2"
    by (simp add: accessories_def)
  have n: "filter (\<lambda>r. product_category r = Some ''Accessories'' \<and> name r \<noteq> None) accessories \<noteq> []"
    by (simp add: accessories_def)
  have d: "drawable accessories ''Accessories''"
    by (simp add: accessories_def drawable_def)
  from C10_top_products_length [OF h argsorts_lib_stable d, where plt = "[]"] h n argsorts_lib_stable d
  show ?thesis
    by (simp only: c k) auto
qed

text \<open>
  The table of one review without a product name: its category has a row, a report is
  returned, its \<open>product_count\<close> is 1 (the missing name counts as a value of the
  column), and its top list is empty.
\<close>

theorem C10_counterexample:
  "filter (\<lambda>r. product_category r = Some ''Accessories'') unnamed \<noteq> [] \<and>
   argsorts (argsort lib_stable) \<and>
   drawable unnamed ''Accessories'' \<and>
   (\<exists>rep. fst (analyze_category_data lib_stable [] unnamed ''Accessories'') = Inr (Some rep) \<and>
      top_products rep = [] \<and> product_count rep = 1)"
proof -
  have a: "filter (\<lambda>r. product_category r = Some ''Accessories'') unnamed \<noteq> []"
    by (simp add: unnamed_def)
  have d: "drawable unnamed ''Accessories''"
    by (simp add: unnamed_def drawable_def)
  have c: "filter (\<lambda>r. product_category r = Some ''Accessories'') unnamed = unnamed"
    by (simp add: unnamed_def)
  have g: "groupby_mean lib_stable unnamed = []"
    by (simp add: unnamed_def groupby_mean_def)
  have s: "sort_values lib_stable False [] = ([] :: (string \<times> rat option) list)"
    using sort_values_Nil_iff [OF argsorts_lib_stable] by blast
  have u: "length (unique (map name unnamed)) = 1"
    by (simp add: unnamed_def unique_def)
  from d argsorts_lib_stable obtain rep where
    r: "fst (analyze_category_data lib_stable [] unnamed ''Accessories'') = Inr (Some rep)" and
    p: "product_count rep = length (unique (map name
          (filter (\<lambda>r. product_category r = Some ''Accessories'') unnamed)))" and
    t: "top_products rep = top_products_data
          (filter (\<lambda>r. product_category r = Some ''Accessories'') unnamed)
          (take 3 (sort_values lib_stable False
             (groupby_mean lib_stable (filter (\<lambda>r. product_category r = Some ''Accessories'') unnamed))))"
    by (rule report_fields [where plt = "[]"])
  have t': "top_products rep = []"
    by (simp add: t c g s top_products_data_def)
  have p': "product_count rep = 1"
    by (simp only: p c u)
  from r t' p' have "\<exists>rep. fst (analyze_category_data lib_stable [] unnamed ''Accessories'') = Inr (Some rep) \<and>
      top_products rep = [] \<and> product_count rep = 1"
    by blast
  with a argsorts_lib_stable d show ?thesis by (intro conjI)
qed

text \<open>
  Claim C2, as amended. For every category that has rows and something to draw in both
  charts, and every library whose sort meets its contract, the analysis returns a report
  whose \<open>top_products\<close> has at most three entries, which are distinct products of the grouped table with their means, in
  descending order of mean (a product with no mean ranks last), and no product outside
  the list ranks above one inside it. The order among products with equal means is left
  to the library's sort: the program asks for no stable sort. (With a sort that returns
  equal keys in reverse, products with equal means do not stand in the order of the
  grouped table: see the counterexample.)
\<close>
theorem C2_top_products_ranked:
  assumes "filter (\<lambda>r. product_category r = Some c) df \<noteq> []"
    and "argsorts (argsort lib)"
    and "drawable df c"
  shows "\<exists>rep. fst (analyze_category_data lib plt df c) = Inr (Some rep) \<and>
           length (top_products rep) \<le> 3 \<and>
           sorted_wrt (\<lambda>p q. descending (tp_rating p) (tp_rating q)) (top_products rep) \<and>
           distinct (map tp_name (top_products rep)) \<and>
           (\<forall>p\<in>set (top_products rep).
              (tp_name p, tp_rating p) \<in>
                set (groupby_mean lib (filter (\<lambda>r. product_category r = Some c) df))) \<and>
           (\<forall>p\<in>set (top_products rep).
              \<forall>g\<in>set (groupby_mean lib (filter (\<lambda>r. product_category r = Some c) df)).
                fst g \<notin> set (map tp_name (top_products rep)) \<longrightarrow>
                descending (tp_rating p) (snd g))"
proof -
  let ?cdf = "filter (\<lambda>r. product_category r = Some c) df"
  let ?groups = "groupby_mean lib ?cdf"
  let ?ranked = "sort_values lib False ?groups"
  from assms(3,2) obtain rep where
    r: "fst (analyze_category_data lib plt df c) = Inr (Some rep)" and
    t: "top_products rep = top_products_data ?cdf (take 3 ?ranked)"
    by (rule report_fields [where plt = plt])
  have srt_all: "sorted_wrt (\<lambda>p q. descending (snd p) (snd q)) ?ranked"
    by (rule sort_values_descending [OF assms(2)])
  have names: "map tp_name (top_products rep) = map fst (take 3 ?ranked)"
    by (simp only: t map_tp_name)
  have len: "length (top_products rep) \<le> 3"
    by (simp add: t length_top_products_data)
  have "sorted_wrt (\<lambda>p q. descending (snd p) (snd q)) (take 3 ?ranked)"
    using srt_all by (rule sorted_wrt_take)
  then have srt: "sorted_wrt (\<lambda>p q. descending (tp_rating p) (tp_rating q)) (top_products rep)"
    by (simp only: t sorted_top_products_data)
  have "distinct (map fst ?groups)"
    using groupby_mean_names [of lib ?cdf] by blast
  then have "distinct (map fst ?ranked)"
    by (rule distinct_names_sort_values [OF assms(2)])
  then have "distinct (take 3 (map fst ?ranked))"
    by (rule distinct_take)
  then have dst: "distinct (map tp_name (top_products rep))"
    by (simp only: names take_map)
  have row: "(tp_name p, tp_rating p) \<in> set (take 3 ?ranked)" if "p \<in> set (top_products rep)" for p
    using that unfolding t by (rule top_entry_row)
  have mem: "\<forall>p\<in>set (top_products rep). (tp_name p, tp_rating p) \<in> set ?groups"
  proof
    fix p assume "p \<in> set (top_products rep)"
    then have "(tp_name p, tp_rating p) \<in> set (take 3 ?ranked)" by (rule row)
    then have "(tp_name p, tp_rating p) \<in> set ?ranked" by (rule in_set_takeD)
    then show "(tp_name p, tp_rating p) \<in> set ?groups"
      by (simp only: set_sort_values [OF assms(2)])
  qed
  have hi: "\<forall>p\<in>set (top_products rep). \<forall>g\<in>set ?groups.
              fst g \<notin> set (map tp_name (top_products rep)) \<longrightarrow> descending (tp_rating p) (snd g)"
  proof (intro ballI impI)
    fix p g
    assume p: "p \<in> set (top_products rep)" and g: "g \<in> set ?groups"
      and out: "fst g \<notin> set (map tp_name (top_products rep))"
    from out have "g \<notin> set (take 3 ?ranked)"
      by (simp only: names) force
    moreover from g have "g \<in> set ?ranked"
      by (simp only: set_sort_values [OF assms(2)])
    ultimately have "g \<in> set (drop 3 ?ranked)" by (intro in_set_dropI)
    with srt_all row [OF p] have "descending (snd (tp_name p, tp_rating p)) (snd g)"
      by (rule sorted_wrt_take_drop)
    then show "descending (tp_rating p) (snd g)" by simp
  qed
  show ?thesis
  proof (intro exI conjI)
    show "fst (analyze_category_data lib plt df c) = Inr (Some rep)" by (rule r)
    show "length (top_products rep) \<le> 3" by (rule len)
    show "sorted_wrt (\<lambda>p q. descending (tp_rating p) (tp_rating q)) (top_products rep)" by (rule srt)
    show "distinct (map tp_name (top_products rep))" by (rule dst)
    show "\<forall>p\<in>set (top_products rep). (tp_name p, tp_rating p) \<in> set ?groups" by (rule mem)
    show "\<forall>p\<in>set (top_products rep). \<forall>g\<in>set ?groups.
              fst g \<notin> set (map tp_name (top_products rep)) \<longrightarrow> descending (tp_rating p) (snd g)"
      by (rule hi)
  qed
qed

lemma tied_category: "filter (\<lambda>r. product_category r = Some ''Accessories'') tied = tied"
  by (simp add: tied_def)

lemma tied_groups:
  "groupby_mean lib_reversing tied =
     [(''P00'', Some 4), (''P01'', Some 4), (''P02'', Some 5), (''P03'', Some 5)]"
  by (simp add: tied_def groupby_mean_def mean_def lib_reversing_def exact_mean_def)

lemma tied_ranked:
  "sort_values lib_reversing False
     [(''P00'', Some 4), (''P01'', Some 4), (''P02'', Some 5), (''P03'', Some 5)] =
     [(''P03'', Some 5), (''P02'', Some 5), (''P01'', Some 4), (''P00'', Some 4)]"
  by code_simp

lemma tied_drawable: "drawable tied ''Accessories''"
  by (simp add: tied_def drawable_def)

lemma tied_top:
  "\<exists>rep. fst (analyze_category_data lib_reversing [] tied ''Accessories'') = Inr (Some rep) \<and>
     top_products rep =
       [\<lparr>tp_name = ''P03'', tp_rating = Some 5, positive_summaries = [''superb'']\<rparr>,
        \<lparr>tp_name = ''P02'', tp_rating = Some 5, positive_summaries = [''great'']\<rparr>,
        \<lparr>tp_name = ''P01'', tp_rating = Some 4, positive_summaries = [''good'']\<rparr>]"
proof -
  have t: "top_products_data tied [(''P03'', Some 5), (''P02'', Some 5), (''P01'', Some 4)] =
          [\<lparr>tp_name = ''P03'', tp_rating = Some 5, positive_summaries = [''superb'']\<rparr>,
           \<lparr>tp_name = ''P02'', tp_rating = Some 5, positive_summaries = [''great'']\<rparr>,
           \<lparr>tp_name = ''P01'', tp_rating = Some 4, positive_summaries = [''good'']\<rparr>]"
    by (simp add: tied_def top_products_data_def)
  from tied_drawable argsorts_lib_reversing obtain rep where
    r: "fst (analyze_category_data lib_reversing [] tied ''Accessories'') = Inr (Some rep)" and
    p: "top_products rep = top_products_data
          (filter (\<lambda>r. product_category r = Some ''Accessories'') tied)
          (take 3 (sort_values lib_reversing False
             (groupby_mean lib_reversing (filter (\<lambda>r. product_category r = Some ''Accessories'') tied))))"
    by (rule report_fields [where plt = "[]"])
  have "top_products rep =
       [\<lparr>tp_name = ''P03'', tp_rating = Some 5, positive_summaries = [''superb'']\<rparr>,
        \<lparr>tp_name = ''P02'', tp_rating = Some 5, positive_summaries = [''great'']\<rparr>,
        \<lparr>tp_name = ''P01'', tp_rating = Some 4, positive_summaries = [''good'']\<rparr>]"
    by (simp add: p tied_category tied_groups tied_ranked t)
  with r show ?thesis by blast
qed

theorem C2_top_products_ranked_witness:
  "filter (\<lambda>r. product_category r = Some ''Accessories'') tied \<noteq> [] \<and>
   argsorts (argsort lib_reversing) \<and>
   drawable tied ''Accessories'' \<and>
   (\<exists>rep. fst (analyze_category_data lib_reversing [] tied ''Accessories'') = Inr (Some rep) \<and>
      map tp_name (top_products rep) = [''P03'', ''P02'', ''P01''] \<and>
      map tp_rating (top_products rep) = [Some 5, Some 5, Some 4] \<and>
      length (top_products rep) \<le> 3 \<and>
      sorted_wrt (\<lambda>p q. descending (tp_rating p) (tp_rating q)) (top_products rep) \<and>
      distinct (map tp_name (top_products rep)) \<and>
      (\<forall>p\<in>set (top_products rep). \<forall>g\<in>set (groupby_mean lib_reversing tied).
         fst g \<notin> set (map tp_name (top_products rep)) \<longrightarrow> descending (tp_rating p) (snd g)))"
proof -
  have h: "filter (\<lambda>r. product_category r = Some ''Accessories'') tied \<noteq> []"
    by (simp add: tied_def)
  from C2_top_products_ranked [OF h argsorts_lib_reversing tied_drawable, where plt = "[]"]
  obtain rep where
    r: "fst (analyze_category_data lib_reversing [] tied ''Accessories'') = Inr (Some rep)" and
    p: "length (top_products rep) \<le> 3"
       "sorted_wrt (\<lambda>p q. descending (tp_rating p) (tp_rating q)) (top_products rep)"
       "distinct (map tp_name (top_products rep))"
       "\<forall>p\<in>set (top_products rep). \<forall>g\<in>set (groupby_mean lib_reversing tied).
         fst g \<notin> set (map tp_name (top_products rep)) \<longrightarrow> descending (tp_rating p) (snd g)"
    unfolding tied_category by blast
  from tied_top r have t: "top_products rep =
          [\<lparr>tp_name = ''P03'', tp_rating = Some 5, positive_summaries = [''superb'']\<rparr>,
           \<lparr>tp_name = ''P02'', tp_rating = Some 5, positive_summaries = [''great'']\<rparr>,
           \<lparr>tp_name = ''P01'', tp_rating = Some 4, positive_summaries = [''good'']\<rparr>]"
    by auto
  show ?thesis
  proof (intro conjI exI)
    show "filter (\<lambda>r. product_category r = Some ''Accessories'') tied \<noteq> []" by (rule h)
    show "argsorts (argsort lib_reversing)" by (rule argsorts_lib_reversing)
    show "drawable tied ''Accessories''" by (rule tied_drawable)
    show "fst (analyze_category_data lib_reversing [] tied ''Accessories'') = Inr (Some rep)" by (rule r)
    show "map tp_name (top_products rep) = [''P03'', ''P02'', ''P01'']" by (simp add: t)
    show "map tp_rating (top_products rep) = [Some 5, Some 5, Some 4]" by (simp add: t)
    show "length (top_products rep) \<le> 3" by (rule p(1))
    show "sorted_wrt (\<lambda>p q. descending (tp_rating p) (tp_rating q)) (top_products rep)" by (rule p(2))
    show "distinct (map tp_name (top_products rep))" by (rule p(3))
    show "\<forall>p\<in>set (top_products rep). \<forall>g\<in>set (groupby_mean lib_reversing tied).
         fst g \<notin> set (map tp_name (top_products rep)) \<longrightarrow> descending (tp_rating p) (snd g)"
      by (rule p(4))
  qed
qed

text \<open>
  Four products with one review each, P00 and P01 rated 4, P02 and P03 rated 5, and a
  library whose sort meets its contract and returns equal keys in reverse: the grouped
  table lists P02 before P03, the top list P03 before P02.
\<close>

theorem C2_counterexample:
  "argsorts (argsort lib_reversing) \<and>
   drawable tied ''Accessories'' \<and>
   groupby_mean lib_reversing (filter (\<lambda>r. product_category r = Some ''Accessories'') tied) =
     [(''P00'', Some 4), (''P01'', Some 4), (''P02'', Some 5), (''P03'', Some 5)] \<and>
   (\<exists>rep. fst (analyze_category_data lib_reversing [] tied ''Accessories'') = Inr (Some rep) \<and>
     top_products rep =
       [\<lparr>tp_name = ''P03'', tp_rating = Some 5, positive_summaries = [''superb'']\<rparr>,
        \<lparr>tp_name = ''P02'', tp_rating = Some 5, positive_summaries = [''great'']\<rparr>,
        \<lparr>tp_name = ''P01'', tp_rating = Some 4, positive_summaries = [''good'']\<rparr>])"
  using argsorts_lib_reversing tied_drawable tied_groups tied_top by (simp only: tied_category)

text \<open>
  Claim C5, as amended. For a category that has rows and something to draw in both
  charts, and every library whose sort meets its contract, the analysis returns a report
  in which the bar heights of the sentiment chart sum to the number
  of rows of the category whose sentiment label is present, and the bar heights of the
  rating chart sum to the number of its rows whose rating is present; each sum is
  \<open>review_count\<close> when no row of the category lacks that cell. The tick labels of the
  rating chart are numbers in strictly ascending order. (A row without label or rating is
  counted in \<open>review_count\<close> and in no bar: see the counterexample.)
\<close>
theorem C5_distributions:
  assumes "filter (\<lambda>r. product_category r = Some c) df \<noteq> []"
    and "argsorts (argsort lib)"
    and "drawable df c"
  shows "\<exists>rep. fst (analyze_category_data lib plt df c) = Inr (Some rep) \<and>
           sum_list (map snd (bars (sentiment_chart rep))) =
             length (dropna (map rating_sentiment (filter (\<lambda>r. product_category r = Some c) df))) \<and>
           sum_list (map snd (bars (rating_chart rep))) =
             length (dropna (map reviews_rating (filter (\<lambda>r. product_category r = Some c) df))) \<and>
           (None \<notin> set (map rating_sentiment (filter (\<lambda>r. product_category r = Some c) df)) \<longrightarrow>
              sum_list (map snd (bars (sentiment_chart rep))) = review_count rep) \<and>
           (None \<notin> set (map reviews_rating (filter (\<lambda>r. product_category r = Some c) df)) \<longrightarrow>
              sum_list (map snd (bars (rating_chart rep))) = review_count rep) \<and>
           (\<exists>ks. map fst (bars (rating_chart rep)) = map Number ks \<and> sorted_wrt (<) ks)"
proof -
  let ?cdf = "filter (\<lambda>r. product_category r = Some c) df"
  from assms(3,2) obtain rep where
    r: "fst (analyze_category_data lib plt df c) = Inr (Some rep)" and
    n: "review_count rep = length ?cdf" and
    sb: "bars (sentiment_chart rep) =
           map (\<lambda>(k, n). (Text k, n)) (value_counts lib (map rating_sentiment ?cdf))" and
    rb: "bars (rating_chart rep) =
           map (\<lambda>(k, n). (Number k, n))
             (sort_index lib (value_counts lib (map reviews_rating ?cdf)))"
    by (rule report_fields [where plt = plt])
  have s1: "sum_list (map snd (bars (sentiment_chart rep))) =
              length (dropna (map rating_sentiment ?cdf))"
    by (simp only: sb map_snd_labelled sum_value_counts [OF assms(2)])
  have s2: "sum_list (map snd (bars (rating_chart rep))) =
              length (dropna (map reviews_rating ?cdf))"
    by (simp only: rb map_snd_labelled sum_sort_index [OF assms(2)] sum_value_counts [OF assms(2)])
  have a1: "None \<notin> set (map rating_sentiment ?cdf) \<longrightarrow>
              sum_list (map snd (bars (sentiment_chart rep))) = review_count rep"
    using dropna_all_present [of "map rating_sentiment ?cdf"] by (simp only: s1 n length_map) blast
  have a2: "None \<notin> set (map reviews_rating ?cdf) \<longrightarrow>
              sum_list (map snd (bars (rating_chart rep))) = review_count rep"
    using dropna_all_present [of "map reviews_rating ?cdf"] by (simp only: s2 n length_map) blast
  have k1: "map fst (bars (rating_chart rep)) =
              map Number (map fst (sort_index lib (value_counts lib (map reviews_rating ?cdf))))"
    by (simp only: rb map_Number)
  have k2: "sorted_wrt (<) (map fst (sort_index lib (value_counts lib (map reviews_rating ?cdf))))"
    by (rule keys_sort_index [OF assms(2)]) (rule distinct_keys_value_counts [OF assms(2)])
  show ?thesis
  proof (intro exI conjI)
    show "fst (analyze_category_data lib plt df c) = Inr (Some rep)" by (rule r)
    show "sum_list (map snd (bars (sentiment_chart rep))) =
              length (dropna (map rating_sentiment ?cdf))" by (rule s1)
    show "sum_list (map snd (bars (rating_chart rep))) =
              length (dropna (map reviews_rating ?cdf))" by (rule s2)
    show "None \<notin> set (map rating_sentiment ?cdf) \<longrightarrow>
              sum_list (map snd (bars (sentiment_chart rep))) = review_count rep" by (rule a1)
    show "None \<notin> set (map reviews_rating ?cdf) \<longrightarrow>
              sum_list (map snd (bars (rating_chart rep))) = review_count rep" by (rule a2)
    show "map fst (bars (rating_chart rep)) =
              map Number (map fst (sort_index lib (value_counts lib (map reviews_rating ?cdf))))"
      by (rule k1)
    show "sorted_wrt (<) (map fst (sort_index lib (value_counts lib (map reviews_rating ?cdf))))"
      by (rule k2)
  qed
qed

lemma unlabelled_category:
  "filter (\<lambda>r. product_category r = Some ''Accessories'') unlabelled = unlabelled"
  by (simp add: unlabelled_def)

lemma unlabelled_sentiments:
  "value_counts lib_stable (map rating_sentiment unlabelled) = [(''Positive'', 1)]"
  unfolding unlabelled_def by code_simp

lemma unlabelled_ratings:
  "sort_index lib_stable (value_counts lib_stable (map reviews_rating unlabelled)) = [(5, 1)]"
  unfolding unlabelled_def by code_simp

lemma unlabelled_drawable: "drawable unlabelled ''Accessories''"
  by (simp add: unlabelled_def drawable_def)

theorem C5_distributions_witness:
  "filter (\<lambda>r. product_category r = Some ''Accessories'') unlabelled \<noteq> [] \<and>
   argsorts (argsort lib_stable) \<and>
   drawable unlabelled ''Accessories'' \<and>
   length (dropna (map rating_sentiment unlabelled)) = 1 \<and>
   length (dropna (map reviews_rating unlabelled)) = 1 \<and>
   (\<exists>rep. fst (analyze_category_data lib_stable [] unlabelled ''Accessories'') = Inr (Some rep) \<and>
      sum_list (map snd (bars (sentiment_chart rep))) = 1 \<and>
      sum_list (map snd (bars (rating_chart rep))) = 1 \<and>
      (\<exists>ks. map fst (bars (rating_chart rep)) = map Number ks \<and> sorted_wrt (<) ks))"
proof -
  have h: "filter (\<lambda>r. product_category r = Some ''Accessories'') unlabelled \<noteq> []"
    by (simp add: unlabelled_def)
  have l1: "length (dropna (map rating_sentiment unlabelled)) = 1"
    by (simp add: unlabelled_def)
  have l2: "length (dropna (map reviews_rating unlabelled)) = 1"
    by (simp add: unlabelled_def)
  from C5_distributions [OF h argsorts_lib_stable unlabelled_drawable, where plt = "[]"]
  obtain rep where
    r: "fst (analyze_category_data lib_stable [] unlabelled ''Accessories'') = Inr (Some rep)" and
    p: "sum_list (map snd (bars (sentiment_chart rep))) = length (dropna (map rating_sentiment unlabelled))"
       "sum_list (map snd (bars (rating_chart rep))) = length (dropna (map reviews_rating unlabelled))"
       "\<exists>ks. map fst (bars (rating_chart rep)) = map Number ks \<and> sorted_wrt (<) ks"
    unfolding unlabelled_category by blast
  from p(3) obtain ks where k: "map fst (bars (rating_chart rep)) = map Number ks" "sorted_wrt (<) ks"
    by blast
  show ?thesis
  proof (intro conjI exI)
    show "filter (\<lambda>r. product_category r = Some ''Accessories'') unlabelled \<noteq> []" by (rule h)
    show "argsorts (argsort lib_stable)" by (rule argsorts_lib_stable)
    show "drawable unlabelled ''Accessories''" by (rule unlabelled_drawable)
    show "length (dropna (map rating_sentiment unlabelled)) = 1" by (rule l1)
    show "length (dropna (map reviews_rating unlabelled)) = 1" by (rule l2)
    show "fst (analyze_category_data lib_stable [] unlabelled ''Accessories'') = Inr (Some rep)" by (rule r)
    show "sum_list (map snd (bars (sentiment_chart rep))) = 1" using p(1) by (simp only: l1)
    show "sum_list (map snd (bars (rating_chart rep))) = 1" using p(2) by (simp only: l2)
    show "map fst (bars (rating_chart rep)) = map Number ks" by (rule k(1))
    show "sorted_wrt (<) ks" by (rule k(2))
  qed
qed

text \<open>
  Two reviews of one product, the second without rating and without sentiment label:
  \<open>review_count\<close> is 2, the one sentiment bar has height 1 and the one rating bar has
  height 1.
\<close>

theorem C5_counterexample:
  "filter (\<lambda>r. product_category r = Some ''Accessories'') unlabelled \<noteq> [] \<and>
   argsorts (argsort lib_stable) \<and>
   drawable unlabelled ''Accessories'' \<and>
   (\<exists>rep. fst (analyze_category_data lib_stable [] unlabelled ''Accessories'') = Inr (Some rep) \<and>
      review_count rep = 2 \<and>
      bars (sentiment_chart rep) = [(Text ''Positive'', 1)] \<and>
      bars (rating_chart rep) = [(Number 5, 1)])"
proof -
  have a: "filter (\<lambda>r. product_category r = Some ''Accessories'') unlabelled \<noteq> []"
    by (simp add: unlabelled_def)
  have n: "length unlabelled = 2" by (simp add: unlabelled_def)
  from unlabelled_drawable argsorts_lib_stable obtain rep where
    r: "fst (analyze_category_data lib_stable [] unlabelled ''Accessories'') = Inr (Some rep)" and
    c: "review_count rep = length (filter (\<lambda>r. product_category r = Some ''Accessories'') unlabelled)" and
    s: "bars (sentiment_chart rep) = map (\<lambda>(k, n). (Text k, n))
          (value_counts lib_stable (map rating_sentiment
             (filter (\<lambda>r. product_category r = Some ''Accessories'') unlabelled)))" and
    v: "bars (rating_chart rep) = map (\<lambda>(k, n). (Number k, n))
          (sort_index lib_stable (value_counts lib_stable (map reviews_rating
             (filter (\<lambda>r. product_category r = Some ''Accessories'') unlabelled))))"
    by (rule report_fields [where plt = "[]"])
  have c': "review_count rep = 2"
    by (simp only: c unlabelled_category n)
  have s': "bars (sentiment_chart rep) = [(Text ''Positive'', 1)]"
    by (simp add: s unlabelled_category unlabelled_sentiments)
  have v': "bars (rating_chart rep) = [(Number 5, 1)]"
    by (simp add: v unlabelled_category unlabelled_ratings)
  from r c' s' v' have "\<exists>rep. fst (analyze_category_data lib_stable [] unlabelled ''Accessories'') = Inr (Some rep) \<and>
      review_count rep = 2 \<and>
      bars (sentiment_chart rep) = [(Text ''Positive'', 1)] \<and>
      bars (rating_chart rep) = [(Number 5, 1)]"
    by blast
  with a argsorts_lib_stable unlabelled_drawable show ?thesis by (intro conjI)
qed

end
